theory Spec2Isabelle
  imports Complex_Main "HOL-Library.AList"
begin

section \<open>JavaScript values\<close>

text \<open>
  The handlers of \<^verbatim>\<open>route.ts\<close> work on untyped JavaScript values: the parsed request body,
  the parsed stored record, the objects built with the spread operator. A value is modelled
  by the JSON it serialises to; an object is an association list in property order, and a
  property that is \<^verbatim>\<open>undefined\<close> is a property that is absent.
\<close>

datatype json =
    JNull
  | JBool bool
  | JNum rat
  | JStr string
  | JArr "json list"
  | JObj "(string \<times> json) list"

type_synonym obj = "(string \<times> json) list"

text \<open>The truth value JavaScript gives a value in \<^verbatim>\<open>if (x)\<close>, \<^verbatim>\<open>!x\<close> and \<^verbatim>\<open>x || y\<close>.\<close>

fun truthy :: "json \<Rightarrow> bool" where
  "truthy JNull = False"
| "truthy (JBool b) = b"
| "truthy (JNum r) = (r \<noteq> 0)"
| "truthy (JStr s) = (s \<noteq> [])"
| "truthy (JArr xs) = True"
| "truthy (JObj kvs) = True"

text \<open>\<^verbatim>\<open>x || y\<close> where \<open>x\<close> may be undefined.\<close>

definition or_else :: "json option \<Rightarrow> json \<Rightarrow> json" where
  "or_else x y = (case x of None \<Rightarrow> y | Some v \<Rightarrow> if truthy v then v else y)"

text \<open>
  \<^verbatim>\<open>x.name\<close> for the property names the handlers read (\<^verbatim>\<open>createdAt\<close>, \<^verbatim>\<open>content\<close>,
  \<^verbatim>\<open>owner\<close>, ...), on a value that is not \<^verbatim>\<open>null\<close>: an object gives the property, every
  other value gives \<^verbatim>\<open>undefined\<close>. Reading a property of \<^verbatim>\<open>null\<close> throws a TypeError; the one
  place where that can happen handles \<open>JNull\<close> before it calls \<open>get_prop\<close>.
\<close>

fun get_prop :: "json \<Rightarrow> string \<Rightarrow> json option" where
  "get_prop (JObj kvs) name = map_of kvs name"
| "get_prop j name = None"

text \<open>\<^verbatim>\<open>String(n)\<close> for an array index.\<close>

definition digit :: "nat \<Rightarrow> char" where
  "digit d = ''0123456789'' ! d"

function decimal :: "nat \<Rightarrow> string" where
  "decimal n = (if n < 10 then [digit n] else decimal (n div 10) @ [digit (n mod 10)])"
  by pat_completeness auto
termination
  by (relation "measure (\<lambda>n. n)") auto

declare decimal.simps [simp del]

text \<open>
  The own enumerable properties that \<^verbatim>\<open>{...x}\<close> copies: those of an object, the indexed
  elements of an array, the indexed characters of a string, none for the other values.
\<close>

fun spread :: "json \<Rightarrow> obj" where
  "spread (JObj kvs) = kvs"
| "spread (JArr xs) = zip (map decimal [0..<length xs]) xs"
| "spread (JStr s) = zip (map decimal [0..<length s]) (map (\<lambda>c. JStr [c]) s)"
| "spread j = []"

section \<open>Texts and \<^verbatim>\<open>JSON.parse\<close>\<close>

text \<open>
  A text (a stored value, a request body) is modelled by what \<^verbatim>\<open>JSON.parse\<close> makes of it: the
  empty text, a non-empty text that is not JSON (tagged with the message of the SyntaxError
  that the engine throws for it), or the serialisation of a value.
\<close>

datatype rawtext = Empty_text | Malformed string | Json_text json

datatype js_error =
    ZodError "string list list"
  | Error string

definition unexpected_end :: string where
  "unexpected_end = ''Unexpected end of JSON input''"

fun text_truthy :: "rawtext \<Rightarrow> bool" where
  "text_truthy Empty_text = False"
| "text_truthy (Malformed m) = True"
| "text_truthy (Json_text j) = True"

fun JSON_parse :: "rawtext \<Rightarrow> js_error + json" where
  "JSON_parse Empty_text = Inl (Error unexpected_end)"
| "JSON_parse (Malformed m) = Inl (Error m)"
| "JSON_parse (Json_text j) = Inr j"

definition JSON_stringify :: "json \<Rightarrow> rawtext" where
  "JSON_stringify j = Json_text j"

section \<open>\<^verbatim>\<open>schemas.ts\<close>: the zod schemas\<close>

text \<open>
  A schema is modelled by the issues it reports (each issue by its path) and by the value
  it outputs when there is none. A zod object schema outputs the keys of its shape that
  the input has, in shape order, and drops every other key; the output is taken only when
  there is no issue, so of an object. The texts of the issues are left out.
\<close>

type_synonym issues = "string list list"

definition z_string :: "string list \<Rightarrow> (string \<Rightarrow> bool) list \<Rightarrow> json option \<Rightarrow> issues" where
  "z_string path checks v =
     (case v of
        Some (JStr s) \<Rightarrow> map (\<lambda>c. path) (filter (\<lambda>c. \<not> c s) checks)
      | _ \<Rightarrow> [path])"

definition z_optional :: "(json option \<Rightarrow> issues) \<Rightarrow> json option \<Rightarrow> issues" where
  "z_optional schema v = (case v of None \<Rightarrow> [] | Some x \<Rightarrow> schema v)"

definition z_min :: "nat \<Rightarrow> string \<Rightarrow> bool" where
  "z_min n s = (n \<le> length s)"

definition z_max :: "nat \<Rightarrow> string \<Rightarrow> bool" where
  "z_max n s = (length s \<le> n)"

definition strip :: "string list \<Rightarrow> obj \<Rightarrow> obj" where
  "strip shape kvs = List.map_filter (\<lambda>k. map_option (Pair k) (map_of kvs k)) shape"

text \<open>\<^verbatim>\<open>/^dot_app_[A-Za-z0-9]{64}$/\<close> and \<^verbatim>\<open>/^[A-F0-9]{12}$/\<close>.\<close>

definition alnum :: "char \<Rightarrow> bool" where
  "alnum c = (c \<in> set ''ABCDEFGHIJKLMNOPQRSTUVWXYZabcdefghijklmnopqrstuvwxyz0123456789'')"

definition upper_hex :: "char \<Rightarrow> bool" where
  "upper_hex c = (c \<in> set ''ABCDEF0123456789'')"

definition ownerKey_regex :: "string \<Rightarrow> bool" where
  "ownerKey_regex s =
     (take 8 s = ''dot_app_'' \<and> length (drop 8 s) = 64 \<and> list_all alnum (drop 8 s))"

definition deviceId_regex :: "string \<Rightarrow> bool" where
  "deviceId_regex s = (length s = 12 \<and> list_all upper_hex s)"

definition content_shape :: "string list" where
  "content_shape = [''title'', ''message'', ''signature'', ''link'']"

definition DeviceContentSchema_issues :: "string list \<Rightarrow> json option \<Rightarrow> issues" where
  "DeviceContentSchema_issues path v =
     (case v of
        Some (JObj kvs) \<Rightarrow>
          z_optional (z_string (path @ [''title'']) [z_max 100]) (map_of kvs ''title'')
          @ z_optional (z_string (path @ [''message'']) [z_max 500]) (map_of kvs ''message'')
          @ z_optional (z_string (path @ [''signature'']) [z_max 50]) (map_of kvs ''signature'')
          @ z_optional (z_string (path @ [''link'']) []) (map_of kvs ''link'')
      | _ \<Rightarrow> [path])"

definition DeviceContentSchema_output :: "json \<Rightarrow> json" where
  "DeviceContentSchema_output v = JObj (strip content_shape (spread v))"

definition device_shape :: "string list" where
  "device_shape =
     [''owner'', ''ownerKey'', ''deviceId'', ''name'', ''content'', ''createdAt'', ''updatedAt'']"

text \<open>
  \<^verbatim>\<open>z.string().datetime()\<close> is zod's own test of an ISO 8601 text; it is the parameter
  \<open>datetime\<close> here.
\<close>

definition DeviceSchema_issues :: "(string \<Rightarrow> bool) \<Rightarrow> string list \<Rightarrow> json option \<Rightarrow> issues" where
  "DeviceSchema_issues datetime path v =
     (case v of
        Some (JObj kvs) \<Rightarrow>
          z_string (path @ [''owner'']) [z_min 1, z_max 30] (map_of kvs ''owner'')
          @ z_string (path @ [''ownerKey'']) [ownerKey_regex] (map_of kvs ''ownerKey'')
          @ z_string (path @ [''deviceId'']) [deviceId_regex] (map_of kvs ''deviceId'')
          @ z_string (path @ [''name'']) [z_min 1, z_max 50] (map_of kvs ''name'')
          @ DeviceContentSchema_issues (path @ [''content'']) (map_of kvs ''content'')
          @ z_optional (z_string (path @ [''createdAt'']) [datetime]) (map_of kvs ''createdAt'')
          @ z_optional (z_string (path @ [''updatedAt'']) [datetime]) (map_of kvs ''updatedAt'')
      | _ \<Rightarrow> [path])"

definition DeviceSchema_output :: "json \<Rightarrow> json" where
  "DeviceSchema_output v =
     JObj (map (\<lambda>(k, x). (k, if k = ''content'' then DeviceContentSchema_output x else x))
            (strip device_shape (spread v)))"

definition validateDevice :: "(string \<Rightarrow> bool) \<Rightarrow> json \<Rightarrow> js_error + json" where
  "validateDevice datetime data =
     (case DeviceSchema_issues datetime [] (Some data) of
        [] \<Rightarrow> Inr (DeviceSchema_output data)
      | i # is \<Rightarrow> Inl (ZodError (i # is)))"

text \<open>
  \<^verbatim>\<open>normalizeDeviceData\<close>: \<^verbatim>\<open>{...rawData, createdAt: rawData.createdAt || now, updatedAt: now}\<close>,
  with \<open>now\<close> the reading of the clock that the function takes first. Every caller passes an
  object.
\<close>

definition normalizeDeviceData :: "string \<Rightarrow> json \<Rightarrow> json" where
  "normalizeDeviceData now rawData =
     JObj (AList.update ''updatedAt'' (JStr now)
            (AList.update ''createdAt'' (or_else (get_prop rawData ''createdAt'') (JStr now))
               (spread rawData)))"

subsection \<open>Request schemas\<close>

definition z_record :: "string list \<Rightarrow> json option \<Rightarrow> issues" where
  "z_record path v = (case v of Some (JObj kvs) \<Rightarrow> [] | _ \<Rightarrow> [path])"

definition z_number :: "string list \<Rightarrow> (rat \<Rightarrow> bool) list \<Rightarrow> json option \<Rightarrow> issues" where
  "z_number path checks v =
     (case v of
        Some (JNum r) \<Rightarrow> map (\<lambda>c. path) (filter (\<lambda>c. \<not> c r) checks)
      | _ \<Rightarrow> [path])"

text \<open>Readers for the output of a schema, used once the schema has reported no issue.\<close>

definition present :: "json option \<Rightarrow> json" where
  "present v = (case v of Some x \<Rightarrow> x | None \<Rightarrow> JNull)"

definition str_of :: "json option \<Rightarrow> string" where
  "str_of v = (case v of Some (JStr s) \<Rightarrow> s | _ \<Rightarrow> [])"

definition num_of :: "json option \<Rightarrow> rat option" where
  "num_of v = (case v of Some (JNum r) \<Rightarrow> Some r | _ \<Rightarrow> None)"

text \<open>The field \<open>val\<close> is the source's \<^verbatim>\<open>value\<close>.\<close>

record CreateDeviceRequest =
  key :: string
  val :: json
  metadata :: "json option"
  ttl :: "rat option"

definition CreateDeviceRequestSchema_issues :: "(string \<Rightarrow> bool) \<Rightarrow> json \<Rightarrow> issues" where
  "CreateDeviceRequestSchema_issues datetime body =
     (case body of
        JObj kvs \<Rightarrow>
          z_string [''key''] [z_min 1] (map_of kvs ''key'')
          @ DeviceSchema_issues datetime [''value''] (map_of kvs ''value'')
          @ z_optional (z_record [''metadata'']) (map_of kvs ''metadata'')
          @ z_optional (z_number [''ttl''] [\<lambda>r. 60 \<le> r, \<lambda>r. r \<le> 31536000])
              (map_of kvs ''ttl'')
      | _ \<Rightarrow> [[]])"

definition CreateDeviceRequestSchema_parse ::
  "(string \<Rightarrow> bool) \<Rightarrow> json \<Rightarrow> js_error + CreateDeviceRequest" where
  "CreateDeviceRequestSchema_parse datetime body =
     (case CreateDeviceRequestSchema_issues datetime body of
        [] \<Rightarrow>
          Inr \<lparr> key = str_of (get_prop body ''key''),
                val = DeviceSchema_output (present (get_prop body ''value'')),
                metadata = get_prop body ''metadata'',
                ttl = num_of (get_prop body ''ttl'') \<rparr>
      | i # is \<Rightarrow> Inl (ZodError (i # is)))"

definition UpdateDeviceRequestSchema_parse ::
  "(string \<Rightarrow> bool) \<Rightarrow> json \<Rightarrow> js_error + CreateDeviceRequest" where
  "UpdateDeviceRequestSchema_parse = CreateDeviceRequestSchema_parse"

text \<open>The field \<open>content_key\<close> is the source's \<^verbatim>\<open>key\<close> of the content request.\<close>

record UpdateDeviceContentRequest =
  content_key :: string
  content :: json

definition UpdateDeviceContentRequestSchema_issues :: "json \<Rightarrow> issues" where
  "UpdateDeviceContentRequestSchema_issues body =
     (case body of
        JObj kvs \<Rightarrow>
          z_string [''key''] [z_min 1] (map_of kvs ''key'')
          @ DeviceContentSchema_issues [''content''] (map_of kvs ''content'')
      | _ \<Rightarrow> [[]])"

definition UpdateDeviceContentRequestSchema_parse ::
  "json \<Rightarrow> js_error + UpdateDeviceContentRequest" where
  "UpdateDeviceContentRequestSchema_parse body =
     (case UpdateDeviceContentRequestSchema_issues body of
        [] \<Rightarrow>
          Inr \<lparr> content_key = str_of (get_prop body ''key''),
                content = DeviceContentSchema_output (present (get_prop body ''content'')) \<rparr>
      | i # is \<Rightarrow> Inl (ZodError (i # is)))"

section \<open>The environment of a request\<close>

text \<open>
  A handler talks to three things outside the repository: the key-value store (through the
  Cloudflare client), the clock and the notification API. Each call of the client can throw;
  which call throws, and with which message, is an input of the model (\<open>get_fault\<close>,
  \<open>update_fault\<close>, \<open>delete_fault\<close>, \<open>list_fault\<close>). A call that throws leaves the store as it
  was. A key that the store does not have is read as a falsy result, or as an exception
  when \<open>get_fault\<close> says so: the handlers are written for both. Every
  \<^verbatim>\<open>new Date().toISOString()\<close> of the source is executed at most once in a request, so the
  clock is a reading for each place of the source that reads it.
\<close>

datatype site =
    Normalize_now
  | Merge_createdAt
  | Merge_updatedAt
  | Content_updatedAt
  | Response_timestamp

text \<open>
  The request to the notification API: the credential interpolated after \<^verbatim>\<open>Bearer\<close> and the
  JSON payload. The URL, the method and the content type are constants of the source.
\<close>

record notify_call =
  bearer :: "json option"
  payload :: obj

datatype fetch_outcome = Fetch_threw string | Fetch_response nat

record env =
  get_fault :: "string \<Rightarrow> string option"
  update_fault :: "string \<Rightarrow> string option"
  delete_fault :: "string \<Rightarrow> string option"
  list_fault :: "string option"
  date_now :: "site \<Rightarrow> string"
  zod_datetime :: "string \<Rightarrow> bool"
  fetch :: "notify_call \<Rightarrow> fetch_outcome"

record entry =
  entry_value :: rawtext
  entry_metadata :: "json option"
  expiration_ttl :: "rat option"

type_synonym store = "(string \<times> entry) list"

text \<open>
  \<^verbatim>\<open>cf.kv.namespaces.values.get\<close>: throws, or gives a falsy result, or gives a response whose
  \<^verbatim>\<open>text()\<close> is the stored value.
\<close>

datatype get_result = Get_threw string | Get_null | Get_response rawtext

definition values_get :: "env \<Rightarrow> store \<Rightarrow> string \<Rightarrow> get_result" where
  "values_get e st name =
     (case get_fault e name of
        Some m \<Rightarrow> Get_threw m
      | None \<Rightarrow> (case map_of st name of
                   None \<Rightarrow> Get_null
                 | Some x \<Rightarrow> Get_response (entry_value x)))"

definition values_update ::
  "env \<Rightarrow> store \<Rightarrow> string \<Rightarrow> rawtext \<Rightarrow> json option \<Rightarrow> rat option \<Rightarrow> js_error + store" where
  "values_update e st name v md t =
     (case update_fault e name of
        Some m \<Rightarrow> Inl (Error m)
      | None \<Rightarrow>
          Inr (AList.update name
                 \<lparr> entry_value = v, entry_metadata = md, expiration_ttl = t \<rparr> st))"

definition values_delete :: "env \<Rightarrow> store \<Rightarrow> string \<Rightarrow> js_error + store" where
  "values_delete e st name =
     (case delete_fault e name of
        Some m \<Rightarrow> Inl (Error m)
      | None \<Rightarrow> Inr (AList.delete name st))"

text \<open>
  \<^verbatim>\<open>cf.kv.namespaces.keys.list\<close>, read as \<^verbatim>\<open>keysList.result || []\<close>: the names of the keys of
  the store, in its order.
\<close>

definition keys_list :: "env \<Rightarrow> store \<Rightarrow> js_error + string list" where
  "keys_list e st =
     (case list_fault e of
        Some m \<Rightarrow> Inl (Error m)
      | None \<Rightarrow> Inr (map fst st))"

section \<open>\<^verbatim>\<open>route.ts\<close>: responses\<close>

text \<open>
  \<^verbatim>\<open>NextResponse.json(body, {status})\<close>. The texts of the messages are Chinese in the source;
  each is given here by an English rendering.
\<close>

record response =
  status :: nat
  json_body :: obj

datatype operation = Get_device_data | Create_device | Update_device | Delete_device

fun operation_name :: "operation \<Rightarrow> string" where
  "operation_name Get_device_data = ''get device data''"
| "operation_name Create_device = ''create device''"
| "operation_name Update_device = ''update device''"
| "operation_name Delete_device = ''delete device''"

text \<open>What the handlers write with \<^verbatim>\<open>console.log\<close>, \<^verbatim>\<open>console.warn\<close> and \<^verbatim>\<open>console.error\<close>.\<close>

datatype console =
    Console_error operation js_error
  | Skip_invalid string
  | Skip_unreadable string
  | Delete_failed string
  | Device_absent_creating
  | Existing_unreadable
  | Notify_status nat
  | Notify_warning nat
  | Notify_failed string

record outcome =
  response :: response
  store :: store
  console :: "console list"
  calls :: "notify_call list"

fun join_dot :: "string list \<Rightarrow> string" where
  "join_dot [] = []"
| "join_dot [x] = x"
| "join_dot (x # y # zs) = x @ ''.'' @ join_dot (y # zs)"

text \<open>
  \<^verbatim>\<open>handleError\<close>: 400 with the issues for a ZodError, 500 with the message for every other
  error.
\<close>

definition handleError :: "js_error \<Rightarrow> operation \<Rightarrow> response" where
  "handleError error operation =
     (case error of
        ZodError is \<Rightarrow>
          \<lparr> status = 400,
            json_body = [(''error'', JStr ''data validation failed''),
                    (''details'', JArr (map (\<lambda>p. JObj [(''path'', JStr (join_dot p))]) is))] \<rparr>
      | Error m \<Rightarrow>
          \<lparr> status = 500,
            json_body = [(''error'', JStr (operation_name operation @ '' failed'')),
                    (''details'', JStr m)] \<rparr>)"

text \<open>The \<^verbatim>\<open>catch\<close> of a handler: log the error and answer with \<open>handleError\<close>.\<close>

definition failed :: "operation \<Rightarrow> js_error \<Rightarrow> store \<Rightarrow> console list \<Rightarrow> outcome" where
  "failed operation error st cons =
     \<lparr> response = handleError error operation, store = st,
       console = cons @ [Console_error operation error], calls = [] \<rparr>"

definition answer :: "response \<Rightarrow> store \<Rightarrow> console list \<Rightarrow> outcome" where
  "answer r st cons = \<lparr> response = r, store = st, console = cons, calls = [] \<rparr>"

text \<open>
  \<^verbatim>\<open>createSuccessResponse\<close>: \<^verbatim>\<open>{success: true, type, timestamp, ...data}\<close>, status 200. The
  properties of \<open>data\<close> are assigned in their order, each replacing a property of the same name.
\<close>

definition assign :: "obj \<Rightarrow> obj \<Rightarrow> obj" where
  "assign target source = fold (\<lambda>(k, v). AList.update k v) source target"

definition createSuccessResponse :: "env \<Rightarrow> obj \<Rightarrow> string \<Rightarrow> response" where
  "createSuccessResponse e data type =
     \<lparr> status = 200,
       json_body =
         assign
           [(''success'', JBool True), (''type'', JStr type),
            (''timestamp'', JStr (date_now e Response_timestamp))]
           data \<rparr>"

definition error_response :: "nat \<Rightarrow> string \<Rightarrow> response" where
  "error_response code m = \<lparr> status = code, json_body = [(''error'', JStr m)] \<rparr>"

section \<open>\<^verbatim>\<open>route.ts\<close>: GET\<close>

text \<open>
  The three scans of the source (list by owner, list all, delete by owner) read a key the
  same way: \<^verbatim>\<open>get\<close>, \<^verbatim>\<open>text()\<close>, \<^verbatim>\<open>JSON.parse\<close>, \<^verbatim>\<open>validateDevice\<close>. \<open>Unreadable\<close> is an exception
  of \<^verbatim>\<open>get\<close> or \<^verbatim>\<open>JSON.parse\<close> (the outer \<^verbatim>\<open>catch\<close>), \<open>Nothing\<close> a falsy result or an empty text,
  \<open>Invalid\<close> an exception of \<^verbatim>\<open>validateDevice\<close> (the inner \<^verbatim>\<open>catch\<close>).
\<close>

datatype scanned = Unreadable | Nothing | Invalid | Valid json

definition scan_record :: "env \<Rightarrow> store \<Rightarrow> string \<Rightarrow> scanned" where
  "scan_record e st name =
     (case values_get e st name of
        Get_threw m \<Rightarrow> Unreadable
      | Get_null \<Rightarrow> Nothing
      | Get_response resultText \<Rightarrow>
          if text_truthy resultText then
            (case JSON_parse resultText of
               Inl err \<Rightarrow> Unreadable
             | Inr deviceData \<Rightarrow>
                 (case validateDevice (zod_datetime e) deviceData of
                    Inl err \<Rightarrow> Invalid
                  | Inr validatedDevice \<Rightarrow> Valid validatedDevice))
          else Nothing)"

text \<open>\<^verbatim>\<open>validatedDevice.owner === owner && validatedDevice.ownerKey === ownerKey\<close>.\<close>

definition owned_by :: "string \<Rightarrow> string \<Rightarrow> json \<Rightarrow> bool" where
  "owned_by owner ownerKey validatedDevice =
     (get_prop validatedDevice ''owner'' = Some (JStr owner)
      \<and> get_prop validatedDevice ''ownerKey'' = Some (JStr ownerKey))"

fun owner_loop ::
  "env \<Rightarrow> store \<Rightarrow> string \<Rightarrow> string \<Rightarrow> string list \<Rightarrow> json list \<Rightarrow> console list
   \<Rightarrow> json list \<times> console list" where
  "owner_loop e st owner ownerKey [] devices cons = (devices, cons)"
| "owner_loop e st owner ownerKey (name # rest) devices cons =
     (case scan_record e st name of
        Unreadable \<Rightarrow>
          owner_loop e st owner ownerKey rest devices (cons @ [Skip_unreadable name])
      | Nothing \<Rightarrow> owner_loop e st owner ownerKey rest devices cons
      | Invalid \<Rightarrow> owner_loop e st owner ownerKey rest devices (cons @ [Skip_invalid name])
      | Valid validatedDevice \<Rightarrow>
          if owned_by owner ownerKey validatedDevice
          then owner_loop e st owner ownerKey rest (devices @ [validatedDevice]) cons
          else owner_loop e st owner ownerKey rest devices cons)"

fun all_loop ::
  "env \<Rightarrow> store \<Rightarrow> string list \<Rightarrow> json list \<Rightarrow> console list \<Rightarrow> json list \<times> console list" where
  "all_loop e st [] devices cons = (devices, cons)"
| "all_loop e st (name # rest) devices cons =
     (case scan_record e st name of
        Unreadable \<Rightarrow> all_loop e st rest devices (cons @ [Skip_unreadable name])
      | Nothing \<Rightarrow> all_loop e st rest devices cons
      | Invalid \<Rightarrow> all_loop e st rest devices (cons @ [Skip_invalid name])
      | Valid validatedDevice \<Rightarrow> all_loop e st rest (devices @ [validatedDevice]) cons)"

definition GET_by_owner :: "env \<Rightarrow> store \<Rightarrow> string \<Rightarrow> string \<Rightarrow> outcome" where
  "GET_by_owner e st owner ownerKey =
     (case keys_list e st of
        Inl err \<Rightarrow> failed Get_device_data err st []
      | Inr keysList \<Rightarrow>
          (case owner_loop e st owner ownerKey keysList [] [] of
             (devices, cons) \<Rightarrow>
               answer
                 (createSuccessResponse e
                    [(''owner'', JStr owner), (''devices'', JArr devices),
                     (''count'', JNum (of_nat (length devices)))]
                    ''devices_by_owner'')
                 st cons))"

definition GET_all :: "env \<Rightarrow> store \<Rightarrow> outcome" where
  "GET_all e st =
     (case keys_list e st of
        Inl err \<Rightarrow> failed Get_device_data err st []
      | Inr keysList \<Rightarrow>
          (case all_loop e st keysList [] [] of
             (devices, cons) \<Rightarrow>
               answer
                 (createSuccessResponse e
                    [(''devices'', JArr devices), (''count'', JNum (of_nat (length devices)))]
                    ''all_devices'')
                 st cons))"

text \<open>\<^verbatim>\<open>text.includes(part)\<close>.\<close>

fun string_includes :: "string \<Rightarrow> string \<Rightarrow> bool" where
  "string_includes [] part = (part = [])"
| "string_includes (c # cs) part =
     (take (length part) (c # cs) = part \<or> string_includes cs part)"

text \<open>
  \<^verbatim>\<open>error instanceof Error && error.message.includes("not found")\<close>. The message of a
  ZodError is the JSON of its issues; the issues of these schemas (the codes and wordings of
  zod, the messages given in \<^verbatim>\<open>schemas.ts\<close>, paths made of the keys of the shapes) never hold
  the words "not found".
\<close>

fun not_found_error :: "js_error \<Rightarrow> bool" where
  "not_found_error (Error m) = string_includes m ''not found''"
| "not_found_error (ZodError is) = False"

definition GET_caught :: "store \<Rightarrow> js_error \<Rightarrow> outcome" where
  "GET_caught st error =
     (if not_found_error error
      then answer (error_response 404 ''device not found'') st []
      else failed Get_device_data error st [])"

definition GET_one :: "env \<Rightarrow> store \<Rightarrow> string \<Rightarrow> outcome" where
  "GET_one e st k =
     (case values_get e st k of
        Get_threw m \<Rightarrow> GET_caught st (Error m)
      | Get_null \<Rightarrow> answer (error_response 404 ''device not found'') st []
      | Get_response resultText \<Rightarrow>
          (case JSON_parse resultText of
             Inl err \<Rightarrow> GET_caught st err
           | Inr deviceData \<Rightarrow>
               (case validateDevice (zod_datetime e) deviceData of
                  Inl err \<Rightarrow> GET_caught st err
                | Inr validatedDevice \<Rightarrow>
                    answer
                      (createSuccessResponse e
                         [(''key'', JStr k), (''device'', validatedDevice)]
                         ''device_details'')
                      st [])))"

text \<open>
  A query parameter is \<^verbatim>\<open>null\<close> when the URL does not have it. \<^verbatim>\<open>owner && ownerKey\<close> holds when
  both are given and not empty.
\<close>

definition owner_pair :: "string option \<Rightarrow> string option \<Rightarrow> (string \<times> string) option" where
  "owner_pair owner ownerKey =
     (case owner of
        None \<Rightarrow> None
      | Some ow \<Rightarrow>
          (case ownerKey of
             None \<Rightarrow> None
           | Some ok \<Rightarrow> if ow \<noteq> [] \<and> ok \<noteq> [] then Some (ow, ok) else None))"

definition param_truthy :: "string option \<Rightarrow> bool" where
  "param_truthy p = (case p of None \<Rightarrow> False | Some s \<Rightarrow> s \<noteq> [])"

definition GET :: "env \<Rightarrow> store \<Rightarrow> string option \<Rightarrow> string option \<Rightarrow> string option \<Rightarrow> outcome" where
  "GET e st k owner ownerKey =
     (case owner_pair owner ownerKey of
        Some (ow, ok) \<Rightarrow> GET_by_owner e st ow ok
      | None \<Rightarrow>
          if \<not> param_truthy k then GET_all e st
          else GET_one e st (case k of Some name \<Rightarrow> name | None \<Rightarrow> []))"

section \<open>\<^verbatim>\<open>route.ts\<close>: POST\<close>

text \<open>\<^verbatim>\<open>if (metadata) params.metadata = metadata\<close> and \<^verbatim>\<open>if (ttl) params.expiration_ttl = ttl\<close>.\<close>

definition metadata_param :: "json option \<Rightarrow> json option" where
  "metadata_param md = (case md of None \<Rightarrow> None | Some m \<Rightarrow> if truthy m then Some m else None)"

definition ttl_param :: "rat option \<Rightarrow> rat option" where
  "ttl_param t = (case t of None \<Rightarrow> None | Some r \<Rightarrow> if r \<noteq> 0 then Some r else None)"

text \<open>The rest of POST once the check for an existing device has let the request through.\<close>

definition POST_write :: "env \<Rightarrow> store \<Rightarrow> CreateDeviceRequest \<Rightarrow> console list \<Rightarrow> outcome" where
  "POST_write e st req cons =
     (let normalizedDevice = normalizeDeviceData (date_now e Normalize_now) (val req) in
      case values_update e st (key req) (JSON_stringify normalizedDevice)
             (metadata_param (metadata req)) (ttl_param (ttl req)) of
        Inl err \<Rightarrow> failed Create_device err st cons
      | Inr st' \<Rightarrow>
          answer
            (createSuccessResponse e
               [(''message'', JStr ''device created''), (''key'', JStr (key req)),
                (''device'', normalizedDevice)]
               ''device_created'')
            st' cons)"

definition POST :: "env \<Rightarrow> store \<Rightarrow> rawtext \<Rightarrow> outcome" where
  "POST e st request =
     (case JSON_parse request of
        Inl err \<Rightarrow> failed Create_device err st []
      | Inr body \<Rightarrow>
          (case CreateDeviceRequestSchema_parse (zod_datetime e) body of
             Inl err \<Rightarrow> failed Create_device err st []
           | Inr req \<Rightarrow>
               (case values_get e st (key req) of
                  Get_threw m \<Rightarrow> POST_write e st req [Device_absent_creating]
                | Get_null \<Rightarrow> POST_write e st req []
                | Get_response existingText \<Rightarrow>
                    if text_truthy existingText
                    then answer (error_response 409 ''device already exists, use PUT to update'')
                           st []
                    else POST_write e st req [])))"

section \<open>\<^verbatim>\<open>route.ts\<close>: PUT\<close>

text \<open>
  The first \<^verbatim>\<open>try\<close> of PUT, the content update: it returns a response (404), or leaves the
  merged data, or throws; the \<^verbatim>\<open>catch\<close> then takes the request as a full update whatever was
  thrown (by the schema, by \<^verbatim>\<open>get\<close> or by \<^verbatim>\<open>JSON.parse\<close>).
\<close>

datatype content_step =
    Content_returned response
  | Content_merged string json
  | Content_threw

definition PUT_content :: "env \<Rightarrow> store \<Rightarrow> json \<Rightarrow> content_step" where
  "PUT_content e st body =
     (case UpdateDeviceContentRequestSchema_parse body of
        Inl err \<Rightarrow> Content_threw
      | Inr contentRequest \<Rightarrow>
          (case values_get e st (content_key contentRequest) of
             Get_threw m \<Rightarrow> Content_threw
           | Get_null \<Rightarrow> Content_returned (error_response 404 ''device does not exist'')
           | Get_response existingText \<Rightarrow>
               if \<not> text_truthy existingText
               then Content_returned (error_response 404 ''device does not exist'')
               else
                 (case JSON_parse existingText of
                    Inl err \<Rightarrow> Content_threw
                  | Inr existing \<Rightarrow>
                      Content_merged (content_key contentRequest)
                        (JObj (AList.update ''updatedAt'' (JStr (date_now e Content_updatedAt))
                                (AList.update ''content'' (content contentRequest)
                                   (spread existing)))))))"

text \<open>
  The merge of a full update. The inner \<^verbatim>\<open>try\<close> leaves \<^verbatim>\<open>mergedData\<close> at the caller's value when
  \<^verbatim>\<open>get\<close> throws, when \<^verbatim>\<open>JSON.parse\<close> throws (also on the empty text, which is not tested
  here) and when the stored value is \<^verbatim>\<open>null\<close> (\<^verbatim>\<open>existing.createdAt\<close> throws a TypeError).
\<close>

definition PUT_full_merge :: "env \<Rightarrow> store \<Rightarrow> CreateDeviceRequest \<Rightarrow> json \<times> console list" where
  "PUT_full_merge e st fullRequest =
     (case values_get e st (key fullRequest) of
        Get_threw m \<Rightarrow> (val fullRequest, [Existing_unreadable])
      | Get_null \<Rightarrow> (val fullRequest, [])
      | Get_response existingText \<Rightarrow>
          (case JSON_parse existingText of
             Inl err \<Rightarrow> (val fullRequest, [Existing_unreadable])
           | Inr existing \<Rightarrow>
               if existing = JNull then (val fullRequest, [Existing_unreadable])
               else
                 (JObj (AList.update ''updatedAt'' (JStr (date_now e Merge_updatedAt))
                         (AList.update ''createdAt''
                            (or_else (get_prop existing ''createdAt'')
                               (JStr (date_now e Merge_createdAt)))
                            (spread (val fullRequest)))),
                  [])))"

text \<open>\<^verbatim>\<open>value.name\<close> dropped from an object literal when it is undefined, as
  \<^verbatim>\<open>JSON.stringify\<close> does.\<close>

definition defined :: "(string \<times> json option) list \<Rightarrow> obj" where
  "defined ps = List.map_filter (\<lambda>(k, v). map_option (Pair k) v) ps"

definition notifyPayload :: "json \<Rightarrow> json \<Rightarrow> obj" where
  "notifyPayload normalizedDevice c =
     defined
       [(''deviceId'', get_prop normalizedDevice ''deviceId''),
        (''title'', get_prop c ''title''),
        (''message'', get_prop c ''message''),
        (''signature'', Some (or_else (get_prop c ''signature'') (JStr []))),
        (''link'', Some (or_else (get_prop c ''link'') (JStr [])))]"

definition response_ok :: "nat \<Rightarrow> bool" where
  "response_ok n = (200 \<le> n \<and> n \<le> 299)"

text \<open>
  The notification: \<^verbatim>\<open>if (normalizedDevice.content)\<close>, then the \<^verbatim>\<open>fetch\<close> inside its own
  \<^verbatim>\<open>try\<close>. The result is the calls made and the console lines.
\<close>

definition dispatch :: "env \<Rightarrow> json \<Rightarrow> notify_call list \<times> console list" where
  "dispatch e normalizedDevice =
     (case get_prop normalizedDevice ''content'' of
        None \<Rightarrow> ([], [])
      | Some c \<Rightarrow>
          if truthy c then
            (let call = \<lparr> bearer = get_prop normalizedDevice ''ownerKey'',
                          payload = notifyPayload normalizedDevice c \<rparr>
             in case fetch e call of
                  Fetch_threw m \<Rightarrow> ([call], [Notify_failed m])
                | Fetch_response n \<Rightarrow>
                    ([call], Notify_status n # (if response_ok n then [] else [Notify_warning n])))
          else ([], []))"

text \<open>The rest of PUT from \<^verbatim>\<open>normalizeDeviceData(mergedData)\<close> on.\<close>

definition PUT_write ::
  "env \<Rightarrow> store \<Rightarrow> string \<Rightarrow> json \<Rightarrow> json option \<Rightarrow> rat option \<Rightarrow> console list \<Rightarrow> outcome" where
  "PUT_write e st k mergedData md t cons =
     (let normalizedDevice = normalizeDeviceData (date_now e Normalize_now) mergedData in
      case values_update e st k (JSON_stringify normalizedDevice)
             (metadata_param md) (ttl_param t) of
        Inl err \<Rightarrow> failed Update_device err st cons
      | Inr st' \<Rightarrow>
          (case dispatch e normalizedDevice of
             (sent, lines) \<Rightarrow>
               \<lparr> response =
                   createSuccessResponse e
                     [(''message'', JStr ''device updated''), (''key'', JStr k),
                      (''device'', normalizedDevice)]
                     ''device_updated'',
                 store = st', console = cons @ lines, calls = sent \<rparr>))"

definition PUT_full :: "env \<Rightarrow> store \<Rightarrow> json \<Rightarrow> outcome" where
  "PUT_full e st body =
     (case UpdateDeviceRequestSchema_parse (zod_datetime e) body of
        Inl err \<Rightarrow> failed Update_device err st []
      | Inr fullRequest \<Rightarrow>
          (case PUT_full_merge e st fullRequest of
             (mergedData, cons) \<Rightarrow>
               PUT_write e st (key fullRequest) mergedData
                 (metadata fullRequest) (ttl fullRequest) cons))"

definition PUT :: "env \<Rightarrow> store \<Rightarrow> rawtext \<Rightarrow> outcome" where
  "PUT e st request =
     (case JSON_parse request of
        Inl err \<Rightarrow> failed Update_device err st []
      | Inr body \<Rightarrow>
          (case PUT_content e st body of
             Content_returned r \<Rightarrow> answer r st []
           | Content_merged k mergedData \<Rightarrow> PUT_write e st k mergedData None None []
           | Content_threw \<Rightarrow> PUT_full e st body))"

section \<open>\<^verbatim>\<open>route.ts\<close>: DELETE\<close>

text \<open>
  The scan of the bulk delete. The \<^verbatim>\<open>delete\<close> is inside the inner \<^verbatim>\<open>try\<close>: when it throws, the
  key is not pushed to \<^verbatim>\<open>deletedKeys\<close> and the loop goes on. Each key is read from the store
  as the deletes before it have left it.
\<close>

fun delete_loop ::
  "env \<Rightarrow> string \<Rightarrow> string \<Rightarrow> string list \<Rightarrow> store \<Rightarrow> string list \<Rightarrow> console list
   \<Rightarrow> store \<times> string list \<times> console list" where
  "delete_loop e owner ownerKey [] st deletedKeys cons = (st, deletedKeys, cons)"
| "delete_loop e owner ownerKey (name # rest) st deletedKeys cons =
     (case scan_record e st name of
        Unreadable \<Rightarrow>
          delete_loop e owner ownerKey rest st deletedKeys (cons @ [Delete_failed name])
      | Nothing \<Rightarrow> delete_loop e owner ownerKey rest st deletedKeys cons
      | Invalid \<Rightarrow>
          delete_loop e owner ownerKey rest st deletedKeys (cons @ [Skip_invalid name])
      | Valid validatedDevice \<Rightarrow>
          if owned_by owner ownerKey validatedDevice then
            (case values_delete e st name of
               Inl err \<Rightarrow>
                 delete_loop e owner ownerKey rest st deletedKeys (cons @ [Skip_invalid name])
             | Inr st' \<Rightarrow>
                 delete_loop e owner ownerKey rest st' (deletedKeys @ [name]) cons)
          else delete_loop e owner ownerKey rest st deletedKeys cons)"

definition DELETE_by_owner :: "env \<Rightarrow> store \<Rightarrow> string \<Rightarrow> string \<Rightarrow> outcome" where
  "DELETE_by_owner e st owner ownerKey =
     (case keys_list e st of
        Inl err \<Rightarrow> failed Delete_device err st []
      | Inr keysList \<Rightarrow>
          (case delete_loop e owner ownerKey keysList st [] [] of
             (st', deletedKeys, cons) \<Rightarrow>
               answer
                 (createSuccessResponse e
                    [(''message'',
                      JStr (''deleted '' @ decimal (length deletedKeys)
                            @ '' devices of user '' @ owner)),
                     (''deletedKeys'', JArr (map JStr deletedKeys)),
                     (''owner'', JStr owner)]
                    ''bulk_delete_completed'')
                 st' cons))"

definition DELETE_one :: "env \<Rightarrow> store \<Rightarrow> string \<Rightarrow> outcome" where
  "DELETE_one e st k =
     (case values_get e st k of
        Get_threw m \<Rightarrow> answer (error_response 404 ''device does not exist'') st []
      | Get_null \<Rightarrow> answer (error_response 404 ''device does not exist'') st []
      | Get_response existingText \<Rightarrow>
          if \<not> text_truthy existingText
          then answer (error_response 404 ''device does not exist'') st []
          else
            (case values_delete e st k of
               Inl err \<Rightarrow> failed Delete_device err st []
             | Inr st' \<Rightarrow>
                 answer
                   (createSuccessResponse e
                      [(''message'', JStr ''device deleted''), (''key'', JStr k)]
                      ''device_deleted'')
                   st' []))"

definition DELETE ::
  "env \<Rightarrow> store \<Rightarrow> string option \<Rightarrow> string option \<Rightarrow> string option \<Rightarrow> string option \<Rightarrow> outcome"
  where
  "DELETE e st k owner ownerKey deleteAll =
     (case (if deleteAll = Some ''true'' then owner_pair owner ownerKey else None) of
        Some (ow, ok) \<Rightarrow> DELETE_by_owner e st ow ok
      | None \<Rightarrow>
          if \<not> param_truthy k
          then answer (error_response 400 ''missing required parameter: key'') st []
          else DELETE_one e st (case k of Some name \<Rightarrow> name | None \<Rightarrow> []))"

section \<open>A concrete store and concrete requests\<close>

text \<open>
  An instance of zod's test of a date and time: \<^verbatim>\<open>/^\d{4}-\d{2}-\d{2}T\d{2}:\d{2}:\d{2}(\.\d+)?Z$/\<close>.
\<close>

definition is_digit :: "char \<Rightarrow> bool" where
  "is_digit c = (c \<in> set ''0123456789'')"

definition datetime_shape :: "char \<Rightarrow> char" where
  "datetime_shape c = (if is_digit c then CHR ''d'' else if c = CHR ''d'' then CHR ''x'' else c)"

definition iso_datetime :: "string \<Rightarrow> bool" where
  "iso_datetime s =
     (map datetime_shape (take 19 s) = ''dddd-dd-ddTdd:dd:dd''
      \<and> (drop 19 s = ''Z''
         \<or> (take 1 (drop 19 s) = ''.'' \<and> 3 \<le> length (drop 19 s) \<and> last s = CHR ''Z''
            \<and> list_all is_digit (butlast (drop 20 s)))))"

definition ex_env :: env where
  "ex_env =
     \<lparr> get_fault = (\<lambda>name. None), update_fault = (\<lambda>name. None),
       delete_fault = (\<lambda>name. None), list_fault = None,
       date_now = (\<lambda>s. ''2025-06-01T12:00:00.000Z''),
       zod_datetime = iso_datetime,
       fetch = (\<lambda>c. Fetch_response 200) \<rparr>"

definition alice_key :: string where
  "alice_key = ''dot_app_0123456789abcdefghijklmnopqrstuvwxyzABCDEFGHIJKLMNOPQRSTUVWXYZ01''"

definition bob_key :: string where
  "bob_key = ''dot_app_ZYXWVUTSRQPONMLKJIHGFEDCBAzyxwvutsrqponmlkjihgfedcba987654321098''"

definition device :: "string \<Rightarrow> string \<Rightarrow> string \<Rightarrow> string \<Rightarrow> json" where
  "device owner ownerKey deviceId title =
     JObj [(''owner'', JStr owner), (''ownerKey'', JStr ownerKey), (''deviceId'', JStr deviceId),
           (''name'', JStr ''Desk''), (''content'', JObj [(''title'', JStr title)]),
           (''createdAt'', JStr ''2024-01-01T00:00:00.000Z''),
           (''updatedAt'', JStr ''2024-01-02T00:00:00.000Z'')]"

definition stored :: "rawtext \<Rightarrow> entry" where
  "stored t = \<lparr> entry_value = t, entry_metadata = None, expiration_ttl = None \<rparr>"

definition ex_store :: store where
  "ex_store =
     [(''AABBCCDDEEFF'', stored (Json_text (device ''alice'' alice_key ''AABBCCDDEEFF'' ''hello''))),
      (''000000000001'', stored (Malformed ''Unexpected token'')),
      (''000000000002'', stored (Json_text (device ''alice'' bob_key ''000000000002'' ''hi''))),
      (''000000000003'', stored Empty_text),
      (''000000000004'', stored (Json_text (JObj [(''owner'', JStr ''alice'')])))]"

text \<open>
  The store of the specification's example of a bulk delete: three devices of alice under
  her ownerKey, one of alice under another ownerKey, one of bob; and an environment in which
  the delete of the third key fails.
\<close>

definition bulk_store :: store where
  "bulk_store =
     [(''0000000000A1'', stored (Json_text (device ''alice'' alice_key ''0000000000A1'' ''one''))),
      (''0000000000B1'', stored (Json_text (device ''alice'' bob_key ''0000000000B1'' ''two''))),
      (''0000000000A2'', stored (Json_text (device ''alice'' alice_key ''0000000000A2'' ''three''))),
      (''0000000000B2'', stored (Json_text (device ''bob'' bob_key ''0000000000B2'' ''four''))),
      (''0000000000A3'', stored (Json_text (device ''alice'' alice_key ''0000000000A3'' ''five'')))]"

definition flaky_env :: env where
  "flaky_env =
     ex_env\<lparr>delete_fault :=
               (\<lambda>name. if name = ''0000000000A3'' then Some ''delete failed'' else None)\<rparr>"

text \<open>
  An environment in which the read of the key of the first device of the concrete store
  fails, while the key holds the device and the writes succeed.
\<close>

definition unreadable_env :: env where
  "unreadable_env =
     ex_env\<lparr>get_fault :=
               (\<lambda>name. if name = ''AABBCCDDEEFF'' then Some ''read timed out'' else None)\<rparr>"

text \<open>
  An environment whose client reports a key that the store does not have by an exception, as
  the API of the store does with its answer 404; it is used with the empty store.
\<close>

definition missing_env :: env where
  "missing_env = ex_env\<lparr>get_fault := (\<lambda>name. Some ''404 key not found'')\<rparr>"

definition create_body :: "string \<Rightarrow> json \<Rightarrow> json" where
  "create_body k v = JObj [(''key'', JStr k), (''value'', v)]"

definition content_body :: "string \<Rightarrow> json \<Rightarrow> json" where
  "content_body k c = JObj [(''key'', JStr k), (''content'', c)]"

definition both_body :: "string \<Rightarrow> json \<Rightarrow> json \<Rightarrow> json" where
  "both_body k c v = JObj [(''key'', JStr k), (''content'', c), (''value'', v)]"


section \<open>Observations on a response and on the store\<close>

definition body_field :: "response \<Rightarrow> string \<Rightarrow> json option" where
  "body_field r name = map_of (json_body r) name"

definition devices_of :: "response \<Rightarrow> json list" where
  "devices_of r = (case body_field r ''devices'' of Some (JArr ds) \<Rightarrow> ds | _ \<Rightarrow> [])"

text \<open>
  The specification's words for the records of a scan. A record is valid when it can be read,
  its text is not empty, the text is JSON and the JSON validates as a Device; \<open>record_of\<close> is
  then the validated Device. There is none for a key that is not in the store and for a
  malformed record: unreadable, empty, not JSON or invalid for the schema.
\<close>

definition record_of :: "env \<Rightarrow> store \<Rightarrow> string \<Rightarrow> json option" where
  "record_of e st name =
     (case get_fault e name of
        Some m \<Rightarrow> None
      | None \<Rightarrow>
          (case map_of st name of
             None \<Rightarrow> None
           | Some x \<Rightarrow>
               (case entry_value x of
                  Empty_text \<Rightarrow> None
                | Malformed m \<Rightarrow> None
                | Json_text j \<Rightarrow>
                    (case validateDevice (zod_datetime e) j of
                       Inl err \<Rightarrow> None
                     | Inr d \<Rightarrow> Some d))))"

text \<open>
  The specification's words for the bulk delete: the record under the key validates and
  matches the owner pair; it is deleted when, moreover, the delete of its key does not fail.
\<close>

definition matches :: "env \<Rightarrow> store \<Rightarrow> string \<Rightarrow> string \<Rightarrow> string \<Rightarrow> bool" where
  "matches e st owner ownerKey name =
     (case record_of e st name of None \<Rightarrow> False | Some d \<Rightarrow> owned_by owner ownerKey d)"

definition deleted_by :: "env \<Rightarrow> store \<Rightarrow> string \<Rightarrow> string \<Rightarrow> string \<Rightarrow> bool" where
  "deleted_by e st owner ownerKey name =
     (matches e st owner ownerKey name \<and> delete_fault e name = None)"

text \<open>The store holds, under the key, a value that is not empty.\<close>

definition stores_value :: "store \<Rightarrow> string \<Rightarrow> bool" where
  "stores_value st name =
     (case map_of st name of None \<Rightarrow> False | Some x \<Rightarrow> text_truthy (entry_value x))"

text \<open>
  What a handler can know of a key is what the read of the key gives. The key holds an empty
  value when the read returns the empty text; it is absent when the read gives nothing: a
  falsy result, or an exception, which is how POST, DELETE and the full update of PUT take
  every exception of the read, and GET the exceptions whose message says "not found".
\<close>

definition holds_empty :: "env \<Rightarrow> store \<Rightarrow> string \<Rightarrow> bool" where
  "holds_empty e st name = (values_get e st name = Get_response Empty_text)"

definition absent :: "env \<Rightarrow> store \<Rightarrow> string \<Rightarrow> bool" where
  "absent e st name =
     (case values_get e st name of
        Get_threw m \<Rightarrow> True
      | Get_null \<Rightarrow> True
      | Get_response t \<Rightarrow> False)"

text \<open>The JSON value stored under a key, and the \<^verbatim>\<open>deviceId\<close> it carries.\<close>

definition stored_record :: "store \<Rightarrow> string \<Rightarrow> json option" where
  "stored_record st name =
     (case map_of st name of
        None \<Rightarrow> None
      | Some x \<Rightarrow> (case entry_value x of Json_text j \<Rightarrow> Some j | _ \<Rightarrow> None))"

definition device_under :: "store \<Rightarrow> string \<Rightarrow> string option" where
  "device_under st name =
     (case stored_record st name of
        None \<Rightarrow> None
      | Some j \<Rightarrow> (case get_prop j ''deviceId'' of Some (JStr d) \<Rightarrow> Some d | _ \<Rightarrow> None))"

section \<open>Lemmas on the model\<close>

lemma record_of_scan:
  "record_of e st name = (case scan_record e st name of Valid d \<Rightarrow> Some d | _ \<Rightarrow> None)"
  by (simp add: scan_record_def record_of_def values_get_def
      split: option.splits rawtext.splits sum.splits)

lemma all_loop_devices:
  "fst (all_loop e st ks devices cons) = devices @ List.map_filter (record_of e st) ks"
proof (induction ks arbitrary: devices cons)
  case Nil
  then show ?case by simp
next
  case (Cons name rest)
  then show ?case
    by (cases "scan_record e st name") (simp_all add: record_of_scan)
qed

lemma owner_loop_devices:
  "fst (owner_loop e st ow ok ks devices cons)
   = devices @ filter (owned_by ow ok) (List.map_filter (record_of e st) ks)"
proof (induction ks arbitrary: devices cons)
  case Nil
  then show ?case by simp
next
  case (Cons name rest)
  then show ?case
    by (cases "scan_record e st name") (simp_all add: record_of_scan)
qed

lemma length_map_filter:
  "length (List.map_filter f xs) = length (filter (\<lambda>x. f x \<noteq> None) xs)"
  by (induction xs) (auto split: option.splits)

lemma status_success: "status (createSuccessResponse e d t) = 200"
  by (simp add: createSuccessResponse_def)

lemma field_all_devices:
  "body_field (createSuccessResponse e [(''devices'', ds), (''count'', c)] t) name =
     (if name = ''count'' then Some c
      else if name = ''devices'' then Some ds
      else map_of [(''success'', JBool True), (''type'', JStr t),
                   (''timestamp'', JStr (date_now e Response_timestamp))] name)"
  by (simp add: body_field_def createSuccessResponse_def assign_def AList.update_conv')

lemma field_devices_by_owner:
  "body_field (createSuccessResponse e [(''owner'', ow), (''devices'', ds), (''count'', c)] t) name =
     (if name = ''count'' then Some c
      else if name = ''devices'' then Some ds
      else if name = ''owner'' then Some ow
      else map_of [(''success'', JBool True), (''type'', JStr t),
                   (''timestamp'', JStr (date_now e Response_timestamp))] name)"
  by (simp add: body_field_def createSuccessResponse_def assign_def AList.update_conv')

lemma field_error_response:
  "body_field (error_response code m) name = (if name = ''error'' then Some (JStr m) else None)"
  by (simp add: body_field_def error_response_def)

lemma status_error_response: "status (error_response code m) = code"
  by (simp add: error_response_def)

lemma field_handleError:
  "body_field (handleError err operation) ''error'' \<noteq> None
   \<and> body_field (handleError err operation) ''device'' = None
   \<and> body_field (handleError err operation) ''devices'' = None"
  by (cases err) (simp_all add: body_field_def handleError_def)

lemma status_handleError: "status (handleError err operation) \<in> {400, 500}"
  by (cases err) (simp_all add: handleError_def)

lemma GET_all_response:
  assumes "list_fault e = None"
  shows "response (GET_all e st) =
           createSuccessResponse e
             [(''devices'', JArr (List.map_filter (record_of e st) (map fst st))),
              (''count'', JNum (of_nat (length (List.map_filter (record_of e st) (map fst st)))))]
             ''all_devices''"
proof -
  obtain ds cons where l: "all_loop e st (map fst st) [] [] = (ds, cons)"
    by (cases "all_loop e st (map fst st) [] []")
  with all_loop_devices[of e st "map fst st" "[]" "[]"]
  have "ds = List.map_filter (record_of e st) (map fst st)" by simp
  with assms l show ?thesis
    by (simp add: GET_all_def keys_list_def answer_def)
qed

lemma GET_by_owner_response:
  assumes "list_fault e = None"
  shows "response (GET_by_owner e st ow ok) =
           createSuccessResponse e
             [(''owner'', JStr ow),
              (''devices'', JArr (filter (owned_by ow ok) (List.map_filter (record_of e st) (map fst st)))),
              (''count'', JNum (of_nat (length (filter (owned_by ow ok) (List.map_filter (record_of e st) (map fst st))))))]
             ''devices_by_owner''"
proof -
  obtain ds cons where l: "owner_loop e st ow ok (map fst st) [] [] = (ds, cons)"
    by (cases "owner_loop e st ow ok (map fst st) [] []")
  with owner_loop_devices[of e st ow ok "map fst st" "[]" "[]"]
  have "ds = filter (owned_by ow ok) (List.map_filter (record_of e st) (map fst st))" by simp
  with assms l show ?thesis
    by (simp add: GET_by_owner_def keys_list_def answer_def)
qed

lemma GET_list_failed:
  assumes "list_fault e = Some m"
  shows "response (GET_all e st) = handleError (Error m) Get_device_data"
    and "response (GET_by_owner e st ow ok) = handleError (Error m) Get_device_data"
  using assms by (simp_all add: GET_all_def GET_by_owner_def keys_list_def failed_def)

lemma GET_one_no_record:
  assumes "record_of e st name = None"
  shows "status (response (GET_one e st name)) \<in> {400, 404, 500}
         \<and> body_field (response (GET_one e st name)) ''error'' \<noteq> None
         \<and> body_field (response (GET_one e st name)) ''device'' = None"
proof -
  have caught: "status (response (GET_caught st err)) \<in> {400, 404, 500}
         \<and> body_field (response (GET_caught st err)) ''error'' \<noteq> None
         \<and> body_field (response (GET_caught st err)) ''device'' = None" for err
    using status_handleError[of err Get_device_data] field_handleError[of err Get_device_data]
    by (auto simp: GET_caught_def answer_def failed_def field_error_response status_error_response)
  show ?thesis
    using assms caught
    by (auto simp: GET_one_def record_of_def values_get_def answer_def field_error_response
        status_error_response split: option.splits rawtext.splits sum.splits)
qed

lemma map_of_strip:
  "map_of (strip shape kvs) name = (if name \<in> set shape then map_of kvs name else None)"
  unfolding strip_def
  by (induction shape) (auto split: option.splits)

lemma map_of_map_snd:
  "map_of (map (\<lambda>(k, x). (k, g k x)) al) name = map_option (g name) (map_of al name)"
  by (induction al) auto

lemma get_prop_DeviceSchema_output:
  "get_prop (DeviceSchema_output (JObj vs)) name =
     (if name \<in> set device_shape
      then map_option (\<lambda>x. if name = ''content'' then DeviceContentSchema_output x else x)
             (map_of vs name)
      else None)"
  by (simp add: DeviceSchema_output_def map_of_map_snd map_of_strip)

lemma z_string_Nil:
  "z_string path checks v = [] \<longleftrightarrow> (\<exists>s. v = Some (JStr s) \<and> (\<forall>c \<in> set checks. c s))"
  by (auto simp: z_string_def filter_empty_conv split: option.splits json.splits)

lemma DeviceContentSchema_issues_Nil:
  "DeviceContentSchema_issues path v = [] \<Longrightarrow> \<exists>kvs. v = Some (JObj kvs)"
  by (auto simp: DeviceContentSchema_issues_def split: option.splits json.splits)

lemma DeviceSchema_issues_Nil:
  assumes "DeviceSchema_issues datetime path v = []"
  shows "\<exists>vs d c. v = Some (JObj vs) \<and> map_of vs ''deviceId'' = Some (JStr d) \<and> deviceId_regex d
           \<and> map_of vs ''content'' = Some (JObj c)"
proof -
  from assms obtain vs where v: "v = Some (JObj vs)"
    by (auto simp: DeviceSchema_issues_def split: option.splits json.splits)
  from assms v have d: "z_string (path @ [''deviceId'']) [deviceId_regex] (map_of vs ''deviceId'') = []"
    and c: "DeviceContentSchema_issues (path @ [''content'']) (map_of vs ''content'') = []"
    by (simp_all add: DeviceSchema_issues_def)
  from d obtain dv where "map_of vs ''deviceId'' = Some (JStr dv)" "deviceId_regex dv"
    by (auto simp: z_string_Nil)
  moreover from c obtain cv where "map_of vs ''content'' = Some (JObj cv)"
    using DeviceContentSchema_issues_Nil by blast
  ultimately show ?thesis using v by blast
qed

text \<open>What a request that the schema accepts is made of.\<close>

lemma CreateDeviceRequestSchema_parse_Inr:
  assumes "CreateDeviceRequestSchema_parse datetime body = Inr req"
  shows "\<exists>kvs vs d c. body = JObj kvs \<and> map_of kvs ''value'' = Some (JObj vs)
           \<and> val req = DeviceSchema_output (JObj vs)
           \<and> key req \<noteq> [] \<and> map_of kvs ''key'' = Some (JStr (key req))
           \<and> map_of vs ''deviceId'' = Some (JStr d) \<and> deviceId_regex d
           \<and> map_of vs ''content'' = Some (JObj c)"
proof -
  from assms have i: "CreateDeviceRequestSchema_issues datetime body = []"
    and r: "req = \<lparr> key = str_of (get_prop body ''key''),
                val = DeviceSchema_output (present (get_prop body ''value'')),
                metadata = get_prop body ''metadata'',
                ttl = num_of (get_prop body ''ttl'') \<rparr>"
    by (auto simp: CreateDeviceRequestSchema_parse_def split: list.splits)
  from i obtain kvs where b: "body = JObj kvs"
    by (auto simp: CreateDeviceRequestSchema_issues_def split: json.splits)
  from i b have k: "z_string [''key''] [z_min 1] (map_of kvs ''key'') = []"
    and v: "DeviceSchema_issues datetime [''value''] (map_of kvs ''value'') = []"
    by (simp_all add: CreateDeviceRequestSchema_issues_def)
  from k obtain s where s: "map_of kvs ''key'' = Some (JStr s)" "s \<noteq> []"
    by (auto simp: z_string_Nil z_min_def Suc_le_eq)
  from DeviceSchema_issues_Nil[OF v] obtain vs d c where
    "map_of kvs ''value'' = Some (JObj vs)" "map_of vs ''deviceId'' = Some (JStr d)"
    "deviceId_regex d" "map_of vs ''content'' = Some (JObj c)"
    by blast
  with b s r show ?thesis
    by (simp add: str_of_def present_def)
qed

lemma val_request:
  assumes "CreateDeviceRequestSchema_parse datetime body = Inr req"
  shows "\<exists>al d c. val req = JObj al \<and> map_of al ''deviceId'' = Some (JStr d) \<and> deviceId_regex d
           \<and> map_of al ''content'' = Some (DeviceContentSchema_output (JObj c))"
proof -
  from CreateDeviceRequestSchema_parse_Inr[OF assms] obtain vs d c where
    v: "val req = DeviceSchema_output (JObj vs)" "map_of vs ''deviceId'' = Some (JStr d)"
    "deviceId_regex d" "map_of vs ''content'' = Some (JObj c)"
    by blast
  obtain al where al: "DeviceSchema_output (JObj vs) = JObj al"
    by (simp add: DeviceSchema_output_def)
  have m: "map_of al name =
     (if name \<in> set device_shape
      then map_option (\<lambda>x. if name = ''content'' then DeviceContentSchema_output x else x)
             (map_of vs name)
      else None)" for name
    using get_prop_DeviceSchema_output[of vs name] by (simp add: al)
  from v al m[of "''deviceId''"] m[of "''content''"] show ?thesis
    by (auto simp add: device_shape_def)
qed

lemma get_prop_normalizeDeviceData:
  "get_prop (normalizeDeviceData now (JObj al)) name =
     (if name = ''updatedAt'' then Some (JStr now)
      else if name = ''createdAt'' then Some (or_else (map_of al ''createdAt'') (JStr now))
      else map_of al name)"
  by (simp add: normalizeDeviceData_def AList.update_conv')

lemma values_get_stores_value:
  assumes "get_fault e name = None" and "stores_value st name"
  shows "\<exists>t. values_get e st name = Get_response t \<and> text_truthy t"
  using assms by (auto simp: stores_value_def values_get_def split: option.splits)

lemma values_get_fault:
  assumes "get_fault e name \<noteq> None"
  shows "\<exists>m. values_get e st name = Get_threw m"
  using assms by (auto simp: values_get_def)

lemma POST_write_written:
  assumes "update_fault e (key req) = None"
  shows "status (response (POST_write e st req cons)) = 200"
    and "stored_record (store (POST_write e st req cons)) (key req)
           = Some (normalizeDeviceData (date_now e Normalize_now) (val req))"
  using assms
  by (simp_all add: POST_write_def Let_def values_update_def answer_def status_success
      JSON_stringify_def stored_record_def AList.update_conv')

lemma PUT_full_request:
  assumes "JSON_parse request = Inr body"
    and "UpdateDeviceContentRequestSchema_parse body = Inl err"
    and "UpdateDeviceRequestSchema_parse (zod_datetime e) body = Inr req"
  shows "PUT e st request =
           PUT_write e st (key req) (fst (PUT_full_merge e st req)) (metadata req) (ttl req)
             (snd (PUT_full_merge e st req))"
  using assms by (simp add: PUT_def PUT_content_def PUT_full_def split: prod.splits)

lemma PUT_full_merge_obj:
  assumes "val req = JObj al"
  shows "\<exists>ml. fst (PUT_full_merge e st req) = JObj ml
           \<and> (\<forall>name. name \<noteq> ''createdAt'' \<and> name \<noteq> ''updatedAt'' \<longrightarrow> map_of ml name = map_of al name)"
  using assms
  by (auto simp: PUT_full_merge_def AList.update_conv'
      split: get_result.splits sum.splits)


lemma PUT_write_failed:
  assumes "update_fault e k = Some m"
  shows "PUT_write e st k mergedData md t cons = failed Update_device (Error m) st cons"
  using assms by (simp add: PUT_write_def values_update_def)

lemma PUT_write_written:
  assumes "update_fault e k = None"
  shows "PUT_write e st k mergedData md t cons =
     \<lparr> response =
         createSuccessResponse e
           [(''message'', JStr ''device updated''), (''key'', JStr k),
            (''device'', normalizeDeviceData (date_now e Normalize_now) mergedData)]
           ''device_updated'',
       store = AList.update k
                 \<lparr> entry_value = Json_text (normalizeDeviceData (date_now e Normalize_now) mergedData),
                   entry_metadata = metadata_param md, expiration_ttl = ttl_param t \<rparr> st,
       console = cons @ snd (dispatch e (normalizeDeviceData (date_now e Normalize_now) mergedData)),
       calls = fst (dispatch e (normalizeDeviceData (date_now e Normalize_now) mergedData)) \<rparr>"
  using assms
  by (simp add: PUT_write_def values_update_def Let_def JSON_stringify_def split: prod.splits)

lemma dispatch_calls:
  assumes "get_prop normalizedDevice ''content'' = Some c" "truthy c"
  shows "fst (dispatch e normalizedDevice) =
           [\<lparr> bearer = get_prop normalizedDevice ''ownerKey'',
              payload = notifyPayload normalizedDevice c \<rparr>]"
  using assms by (simp add: dispatch_def Let_def split: fetch_outcome.splits)

lemma field_updated:
  "body_field (createSuccessResponse e [(''message'', m), (''key'', k), (''device'', d)] t) name =
     (if name = ''device'' then Some d
      else if name = ''key'' then Some k
      else if name = ''message'' then Some m
      else map_of [(''success'', JBool True), (''type'', JStr t),
                   (''timestamp'', JStr (date_now e Response_timestamp))] name)"
  by (simp add: body_field_def createSuccessResponse_def assign_def AList.update_conv')

lemma stored_record_update:
  "stored_record (AList.update k \<lparr> entry_value = Json_text j, entry_metadata = md,
       expiration_ttl = t \<rparr> st) k = Some j"
  by (simp add: stored_record_def AList.update_conv')

lemma map_of_update_other:
  "name \<noteq> k \<Longrightarrow> map_of (AList.update k v st) name = map_of st name"
  by (simp add: AList.update_conv')

lemma content_of_normalized:
  assumes "CreateDeviceRequestSchema_parse datetime body = Inr req"
  shows "\<exists>c. get_prop (normalizeDeviceData now (fst (PUT_full_merge e st req))) ''content''
           = Some (JObj c)"
proof -
  from val_request[OF assms] obtain al c where
    al: "val req = JObj al" "map_of al ''content'' = Some (DeviceContentSchema_output (JObj c))"
    by blast
  from PUT_full_merge_obj[OF al(1), of e st] obtain ml where
    ml: "fst (PUT_full_merge e st req) = JObj ml"
    and same: "\<forall>name. name \<noteq> ''createdAt'' \<and> name \<noteq> ''updatedAt'' \<longrightarrow> map_of ml name = map_of al name"
    by blast
  from same have "map_of ml ''content'' = map_of al ''content''"
    by simp
  then show ?thesis
    by (simp add: ml al(2) get_prop_normalizeDeviceData DeviceContentSchema_output_def)
qed

lemma env_fetch_update:
  "PUT_content (e\<lparr>fetch := f\<rparr>) st body = PUT_content e st body"
  "PUT_full_merge (e\<lparr>fetch := f\<rparr>) st req = PUT_full_merge e st req"
proof -
  have g: "values_get (e\<lparr>fetch := f\<rparr>) st name = values_get e st name" for name
    by (simp add: values_get_def)
  show "PUT_content (e\<lparr>fetch := f\<rparr>) st body = PUT_content e st body"
    by (simp add: PUT_content_def g split: sum.splits get_result.splits)
  show "PUT_full_merge (e\<lparr>fetch := f\<rparr>) st req = PUT_full_merge e st req"
    by (simp add: PUT_full_merge_def g split: sum.splits get_result.splits)
qed

lemma PUT_write_fetch:
  "response (PUT_write (e\<lparr>fetch := f\<rparr>) st k mergedData md t cons)
     = response (PUT_write e st k mergedData md t cons)
   \<and> store (PUT_write (e\<lparr>fetch := f\<rparr>) st k mergedData md t cons)
     = store (PUT_write e st k mergedData md t cons)"
  by (cases "update_fault e k")
     (simp_all add: PUT_write_written PUT_write_failed failed_def createSuccessResponse_def)

lemma PUT_fetch:
  "response (PUT (e\<lparr>fetch := f\<rparr>) st request) = response (PUT e st request)
   \<and> store (PUT (e\<lparr>fetch := f\<rparr>) st request) = store (PUT e st request)"
  by (simp add: PUT_def PUT_full_def env_fetch_update PUT_write_fetch failed_def answer_def
      split: sum.splits content_step.splits prod.splits)

lemma device_under_update:
  "device_under (AList.update k \<lparr> entry_value = Json_text j, entry_metadata = md,
       expiration_ttl = t \<rparr> st) k
     = (case get_prop j ''deviceId'' of Some (JStr d) \<Rightarrow> Some d | _ \<Rightarrow> None)"
  by (simp add: device_under_def stored_record_update)

lemma POST_write_store:
  "store (POST_write e st req cons) =
     (if status (response (POST_write e st req cons)) = 200
      then AList.update (key req)
             \<lparr> entry_value = Json_text (normalizeDeviceData (date_now e Normalize_now) (val req)),
               entry_metadata = metadata_param (metadata req),
               expiration_ttl = ttl_param (ttl req) \<rparr> st
      else st)"
  by (cases "update_fault e (key req)")
     (simp_all add: POST_write_def Let_def values_update_def answer_def failed_def
        handleError_def status_success JSON_stringify_def)

lemma POST_store:
  assumes "JSON_parse request = Inr body"
    and "CreateDeviceRequestSchema_parse (zod_datetime e) body = Inr req"
  shows "store (POST e st request) =
     (if status (response (POST e st request)) = 200
      then AList.update (key req)
             \<lparr> entry_value = Json_text (normalizeDeviceData (date_now e Normalize_now) (val req)),
               entry_metadata = metadata_param (metadata req),
               expiration_ttl = ttl_param (ttl req) \<rparr> st
      else st)"
  using assms POST_write_store[of e st req]
  by (cases "values_get e st (key req)")
     (simp_all add: POST_def answer_def status_error_response)

lemma PUT_full_store:
  assumes "JSON_parse request = Inr body"
    and "UpdateDeviceContentRequestSchema_parse body = Inl err"
    and "UpdateDeviceRequestSchema_parse (zod_datetime e) body = Inr req"
  shows "store (PUT e st request) =
     (if status (response (PUT e st request)) = 200
      then AList.update (key req)
             \<lparr> entry_value = Json_text (normalizeDeviceData (date_now e Normalize_now)
                                (fst (PUT_full_merge e st req))),
               entry_metadata = metadata_param (metadata req),
               expiration_ttl = ttl_param (ttl req) \<rparr> st
      else st)"
  by (cases "update_fault e (key req)")
     (simp_all add: PUT_full_request[OF assms] PUT_write_written PUT_write_failed failed_def
        handleError_def status_success)

lemma record_of_delete:
  assumes "n \<noteq> name"
  shows "record_of e (AList.delete name st) n = record_of e st n"
proof -
  have m: "map_of (AList.delete name st) n = map_of st n"
    using assms by simp
  show ?thesis
    unfolding record_of_def m by (rule refl)
qed

lemma deleted_by_delete:
  "n \<noteq> name \<Longrightarrow>
   deleted_by e (AList.delete name st) ow ok n = deleted_by e st ow ok n"
  by (simp add: deleted_by_def matches_def record_of_delete)

lemma scan_deleted_by:
  "deleted_by e st ow ok name \<longleftrightarrow>
     (\<exists>d. scan_record e st name = Valid d \<and> owned_by ow ok d \<and> delete_fault e name = None)"
  by (auto simp: deleted_by_def matches_def record_of_scan split: scanned.splits)

lemma delete_loop_spec:
  assumes "distinct ks"
  shows "delete_loop e ow ok ks st acc cons =
           (filter (\<lambda>p. \<not> (fst p \<in> set ks \<and> deleted_by e st ow ok (fst p))) st,
            acc @ filter (deleted_by e st ow ok) ks,
            snd (snd (delete_loop e ow ok ks st acc cons)))"
  using assms
proof (induction ks arbitrary: st acc cons)
  case Nil
  then show ?case by simp
next
  case (Cons name rest)
  then have d: "distinct rest" and nr: "name \<notin> set rest"
    by simp_all
  note IH = Cons.IH[OF d]
  show ?case
  proof (cases "deleted_by e st ow ok name")
    case True
    then obtain dv where v: "scan_record e st name = Valid dv" "owned_by ow ok dv"
      "delete_fault e name = None"
      by (auto simp: scan_deleted_by)
    have same: "deleted_by e (AList.delete name st) ow ok n = deleted_by e st ow ok n"
      if "n \<in> set rest" for n
      using that nr by (intro deleted_by_delete) auto
    have f1: "(acc @ [name]) @ filter (deleted_by e (AList.delete name st) ow ok) rest
            = acc @ filter (deleted_by e st ow ok) (name # rest)"
      using same True by (simp cong: filter_cong)
    have f2: "filter (\<lambda>p. \<not> (fst p \<in> set rest \<and> deleted_by e (AList.delete name st) ow ok (fst p)))
                (AList.delete name st)
            = filter (\<lambda>p. \<not> (fst p \<in> set (name # rest) \<and> deleted_by e st ow ok (fst p))) st"
      using same True by (auto simp: AList.delete_eq intro!: filter_cong)
    have step: "delete_loop e ow ok (name # rest) st acc cons
            = delete_loop e ow ok rest (AList.delete name st) (acc @ [name]) cons"
      using v by (simp add: values_delete_def)
    from IH[of "AList.delete name st" "acc @ [name]" cons] show ?thesis
      unfolding step f1 f2 .
  next
    case False
    have f1: "acc @ filter (deleted_by e st ow ok) rest
            = acc @ filter (deleted_by e st ow ok) (name # rest)"
      using False by simp
    have f2: "filter (\<lambda>p. \<not> (fst p \<in> set rest \<and> deleted_by e st ow ok (fst p))) st
            = filter (\<lambda>p. \<not> (fst p \<in> set (name # rest) \<and> deleted_by e st ow ok (fst p))) st"
      using False by (auto intro!: filter_cong)
    have "\<exists>cons'. delete_loop e ow ok (name # rest) st acc cons
            = delete_loop e ow ok rest st acc cons'"
    proof (cases "scan_record e st name")
      case (Valid dv)
      show ?thesis
      proof (cases "owned_by ow ok dv")
        case True
        with Valid False obtain m where "delete_fault e name = Some m"
          by (auto simp: scan_deleted_by)
        with Valid True show ?thesis
          by (auto simp: values_delete_def)
      next
        case no: False
        with Valid show ?thesis by auto
      qed
    qed auto
    then obtain cons' where step: "delete_loop e ow ok (name # rest) st acc cons
            = delete_loop e ow ok rest st acc cons'"
      by blast
    from IH[of st acc cons'] show ?thesis
      unfolding step f1 f2 .
  qed
qed

lemma map_of_filter_fst:
  "map_of (filter (\<lambda>p. P (fst p)) st) name = (if P name then map_of st name else None)"
  by (induction st) auto

lemma field_bulk_delete:
  "body_field (createSuccessResponse e [(''message'', m), (''deletedKeys'', ks), (''owner'', ow)] t)
     name =
     (if name = ''owner'' then Some ow
      else if name = ''deletedKeys'' then Some ks
      else if name = ''message'' then Some m
      else map_of [(''success'', JBool True), (''type'', JStr t),
                   (''timestamp'', JStr (date_now e Response_timestamp))] name)"
  by (simp add: body_field_def createSuccessResponse_def assign_def AList.update_conv')

lemma DELETE_by_owner_outcome:
  assumes "list_fault e = None" "distinct (map fst st)"
  shows "response (DELETE_by_owner e st ow ok) =
           createSuccessResponse e
             [(''message'',
               JStr (''deleted '' @ decimal (length (filter (deleted_by e st ow ok) (map fst st)))
                     @ '' devices of user '' @ ow)),
              (''deletedKeys'', JArr (map JStr (filter (deleted_by e st ow ok) (map fst st)))),
              (''owner'', JStr ow)]
             ''bulk_delete_completed''"
    and "store (DELETE_by_owner e st ow ok) = filter (\<lambda>p. \<not> deleted_by e st ow ok (fst p)) st"
proof -
  obtain st' ks cons where l: "delete_loop e ow ok (map fst st) st [] [] = (st', ks, cons)"
    by (cases "delete_loop e ow ok (map fst st) st [] []")
  from delete_loop_spec[OF assms(2), of e ow ok st "[]" "[]"] l
  have s: "st' = filter (\<lambda>p. \<not> (fst p \<in> set (map fst st) \<and> deleted_by e st ow ok (fst p))) st"
    and k: "ks = filter (deleted_by e st ow ok) (map fst st)"
    by simp_all
  have "filter (\<lambda>p. \<not> (fst p \<in> set (map fst st) \<and> deleted_by e st ow ok (fst p))) st
      = filter (\<lambda>p. \<not> deleted_by e st ow ok (fst p)) st"
    by (auto intro!: filter_cong)
  with s have s': "st' = filter (\<lambda>p. \<not> deleted_by e st ow ok (fst p)) st"
    by simp
  from assms(1) l k show "response (DELETE_by_owner e st ow ok) =
           createSuccessResponse e
             [(''message'',
               JStr (''deleted '' @ decimal (length (filter (deleted_by e st ow ok) (map fst st)))
                     @ '' devices of user '' @ ow)),
              (''deletedKeys'', JArr (map JStr (filter (deleted_by e st ow ok) (map fst st)))),
              (''owner'', JStr ow)]
             ''bulk_delete_completed''"
    by (simp add: DELETE_by_owner_def keys_list_def answer_def)
  from assms(1) l s' show "store (DELETE_by_owner e st ow ok)
      = filter (\<lambda>p. \<not> deleted_by e st ow ok (fst p)) st"
    by (simp add: DELETE_by_owner_def keys_list_def answer_def)
qed

section \<open>The concrete stores and requests, evaluated\<close>

lemma ownerKey_regex_alice: "ownerKey_regex alice_key"
  by (simp add: ownerKey_regex_def alice_key_def alnum_def)

lemma ownerKey_regex_bob: "ownerKey_regex bob_key"
  by (simp add: ownerKey_regex_def bob_key_def alnum_def)

lemma iso_datetime_examples:
  "iso_datetime ''2024-01-01T00:00:00.000Z''" "iso_datetime ''2024-01-02T00:00:00.000Z''"
  "iso_datetime ''2025-06-01T12:00:00.000Z''"
  by (simp_all add: iso_datetime_def datetime_shape_def is_digit_def)

lemma device_issues:
  assumes "ow \<noteq> []" "length ow \<le> 30" "ownerKey_regex k" "deviceId_regex d" "length t \<le> 100"
  shows "DeviceSchema_issues iso_datetime path (Some (device ow k d t)) = []"
  using assms iso_datetime_examples
  by (simp add: DeviceSchema_issues_def device_def z_string_def z_optional_def z_min_def
      z_max_def DeviceContentSchema_issues_def Suc_le_eq)

lemma device_output: "DeviceSchema_output (device ow k d t) = device ow k d t"
  by (simp add: DeviceSchema_output_def device_def strip_def device_shape_def content_shape_def
      DeviceContentSchema_output_def)

lemma validateDevice_device:
  assumes "ow \<noteq> []" "length ow \<le> 30" "ownerKey_regex k" "deviceId_regex d" "length t \<le> 100"
  shows "validateDevice iso_datetime (device ow k d t) = Inr (device ow k d t)"
  using device_issues[OF assms, of "[]"] by (simp add: validateDevice_def device_output)

lemma deviceId_regex_examples:
  "deviceId_regex ''AABBCCDDEEFF''" "deviceId_regex ''000000000002''"
  by (simp_all add: deviceId_regex_def upper_hex_def)

lemma record_of_ex_store:
  "record_of ex_env ex_store ''AABBCCDDEEFF'' = Some (device ''alice'' alice_key ''AABBCCDDEEFF'' ''hello'')"
  "record_of ex_env ex_store ''000000000001'' = None"
  "record_of ex_env ex_store ''000000000002'' = Some (device ''alice'' bob_key ''000000000002'' ''hi'')"
  "record_of ex_env ex_store ''000000000003'' = None"
  "record_of ex_env ex_store ''000000000004'' = None"
  by (simp_all add: record_of_def ex_env_def ex_store_def stored_def validateDevice_device
      ownerKey_regex_alice ownerKey_regex_bob deviceId_regex_examples)
    (simp add: validateDevice_def DeviceSchema_issues_def z_string_def)

lemma parse_create_body:
  assumes "k \<noteq> []" "DeviceSchema_issues datetime [''value''] (Some v) = []"
  shows "CreateDeviceRequestSchema_parse datetime (create_body k v)
           = Inr \<lparr> key = k, val = DeviceSchema_output v, metadata = None, ttl = None \<rparr>"
  using assms
  by (simp add: CreateDeviceRequestSchema_parse_def CreateDeviceRequestSchema_issues_def
      create_body_def z_string_def z_min_def z_optional_def str_of_def present_def num_of_def
      Suc_le_eq)

lemma parse_create_body_device:
  assumes "k \<noteq> []" "ow \<noteq> []" "length ow \<le> 30" "ownerKey_regex ok" "deviceId_regex d"
    "length t \<le> 100"
  shows "CreateDeviceRequestSchema_parse iso_datetime (create_body k (device ow ok d t))
           = Inr \<lparr> key = k, val = device ow ok d t, metadata = None, ttl = None \<rparr>"
  using parse_create_body[OF assms(1) device_issues[OF assms(2-6)]]
  by (simp add: device_output)

lemma stores_value_ex_store:
  "stores_value ex_store ''AABBCCDDEEFF''" "\<not> stores_value ex_store ''AABBCCDDEE00''"
  by (simp_all add: stores_value_def ex_store_def stored_def)

lemma unreadable_env_fields:
  "get_fault unreadable_env ''AABBCCDDEEFF'' = Some ''read timed out''"
  "update_fault unreadable_env k = None"
  "date_now unreadable_env s = ''2025-06-01T12:00:00.000Z''"
  "zod_datetime unreadable_env = iso_datetime"
  by (simp_all add: unreadable_env_def ex_env_def)

lemma parse_content_body:
  "k \<noteq> [] \<Longrightarrow> length t \<le> 100 \<Longrightarrow>
   UpdateDeviceContentRequestSchema_parse (content_body k (JObj [(''title'', JStr t)]))
     = Inr \<lparr> content_key = k, content = JObj [(''title'', JStr t)] \<rparr>"
  by (simp add: UpdateDeviceContentRequestSchema_parse_def
      UpdateDeviceContentRequestSchema_issues_def content_body_def z_string_def z_min_def
      z_max_def z_optional_def DeviceContentSchema_issues_def str_of_def present_def Suc_le_eq
      DeviceContentSchema_output_def strip_def content_shape_def)

lemma not_content_request:
  "UpdateDeviceContentRequestSchema_parse (create_body k v)
     = Inl (ZodError [[''content'']])"
  if "k \<noteq> []"
  using that
  by (simp add: UpdateDeviceContentRequestSchema_parse_def
      UpdateDeviceContentRequestSchema_issues_def create_body_def z_string_def z_min_def
      DeviceContentSchema_issues_def Suc_le_eq)



lemma ex_env_fields:
  "get_fault ex_env k = None" "update_fault ex_env k = None" "delete_fault ex_env k = None"
  "list_fault ex_env = None" "date_now ex_env s = ''2025-06-01T12:00:00.000Z''"
  "zod_datetime ex_env = iso_datetime"
  by (simp_all add: ex_env_def)

lemma parse_update_device:
  assumes "k \<noteq> []" "ow \<noteq> []" "length ow \<le> 30" "ownerKey_regex ok" "deviceId_regex d"
    "length t \<le> 100"
  shows "UpdateDeviceRequestSchema_parse (zod_datetime ex_env) (create_body k (device ow ok d t))
           = Inr \<lparr> key = k, val = device ow ok d t, metadata = None, ttl = None \<rparr>"
  using parse_create_body_device[OF assms]
  by (simp add: UpdateDeviceRequestSchema_parse_def ex_env_fields)

lemma flaky_env_fields:
  "get_fault flaky_env k = None" "list_fault flaky_env = None"
  "zod_datetime flaky_env = iso_datetime"
  "delete_fault flaky_env k = (if k = ''0000000000A3'' then Some ''delete failed'' else None)"
  by (simp_all add: flaky_env_def ex_env_def)

lemma deviceId_regex_bulk:
  "deviceId_regex ''0000000000A1''" "deviceId_regex ''0000000000A2''"
  "deviceId_regex ''0000000000A3''" "deviceId_regex ''0000000000B1''"
  "deviceId_regex ''0000000000B2''"
  by (simp_all add: deviceId_regex_def upper_hex_def)

lemma record_of_bulk_store:
  "record_of flaky_env bulk_store ''0000000000A1''
     = Some (device ''alice'' alice_key ''0000000000A1'' ''one'')"
  "record_of flaky_env bulk_store ''0000000000B1''
     = Some (device ''alice'' bob_key ''0000000000B1'' ''two'')"
  "record_of flaky_env bulk_store ''0000000000A2''
     = Some (device ''alice'' alice_key ''0000000000A2'' ''three'')"
  "record_of flaky_env bulk_store ''0000000000B2''
     = Some (device ''bob'' bob_key ''0000000000B2'' ''four'')"
  "record_of flaky_env bulk_store ''0000000000A3''
     = Some (device ''alice'' alice_key ''0000000000A3'' ''five'')"
  by (simp_all add: record_of_def flaky_env_fields bulk_store_def stored_def
      validateDevice_device ownerKey_regex_alice ownerKey_regex_bob deviceId_regex_bulk)

lemma deleted_by_bulk_store:
  "deleted_by flaky_env bulk_store ''alice'' alice_key ''0000000000A1''"
  "\<not> deleted_by flaky_env bulk_store ''alice'' alice_key ''0000000000B1''"
  "deleted_by flaky_env bulk_store ''alice'' alice_key ''0000000000A2''"
  "\<not> deleted_by flaky_env bulk_store ''alice'' alice_key ''0000000000B2''"
  "\<not> deleted_by flaky_env bulk_store ''alice'' alice_key ''0000000000A3''"
  "matches flaky_env bulk_store ''alice'' alice_key ''0000000000A3''"
proof -
  have ab: "bob_key \<noteq> alice_key" by (simp add: alice_key_def bob_key_def)
  show "deleted_by flaky_env bulk_store ''alice'' alice_key ''0000000000A1''"
    "\<not> deleted_by flaky_env bulk_store ''alice'' alice_key ''0000000000B1''"
    "deleted_by flaky_env bulk_store ''alice'' alice_key ''0000000000A2''"
    "\<not> deleted_by flaky_env bulk_store ''alice'' alice_key ''0000000000B2''"
    "\<not> deleted_by flaky_env bulk_store ''alice'' alice_key ''0000000000A3''"
    "matches flaky_env bulk_store ''alice'' alice_key ''0000000000A3''"
    by (simp_all add: deleted_by_def matches_def record_of_bulk_store owned_by_def device_def
        flaky_env_fields ab)
qed

section \<open>The claims\<close>

text \<open>
  Counterexample to C1 as stated: the key holds a device, the read that checks for it fails,
  and the create answers 200 and replaces the stored device with the new one.
\<close>

theorem create_overwrites_counterexample:
  "stores_value ex_store ''AABBCCDDEEFF''
   \<and> stored_record ex_store ''AABBCCDDEEFF''
      = Some (device ''alice'' alice_key ''AABBCCDDEEFF'' ''hello'')
   \<and> status (response (POST unreadable_env ex_store
        (Json_text (create_body ''AABBCCDDEEFF''
           (device ''bob'' bob_key ''AABBCCDDEEFF'' ''news''))))) = 200
   \<and> stored_record (store (POST unreadable_env ex_store
        (Json_text (create_body ''AABBCCDDEEFF''
           (device ''bob'' bob_key ''AABBCCDDEEFF'' ''news''))))) ''AABBCCDDEEFF''
      = Some (normalizeDeviceData ''2025-06-01T12:00:00.000Z''
                (device ''bob'' bob_key ''AABBCCDDEEFF'' ''news''))
   \<and> store (POST unreadable_env ex_store
        (Json_text (create_body ''AABBCCDDEEFF''
           (device ''bob'' bob_key ''AABBCCDDEEFF'' ''news'')))) \<noteq> ex_store"
proof -
  let ?v = "device ''bob'' bob_key ''AABBCCDDEEFF'' ''news''"
  let ?req = "\<lparr> key = ''AABBCCDDEEFF'', val = ?v, metadata = None, ttl = None \<rparr>"
  let ?out = "POST unreadable_env ex_store (Json_text (create_body ''AABBCCDDEEFF'' ?v))"
  have p: "CreateDeviceRequestSchema_parse iso_datetime (create_body ''AABBCCDDEEFF'' ?v)
      = Inr ?req"
    by (simp add: parse_create_body_device ownerKey_regex_bob deviceId_regex_examples)
  have g: "values_get unreadable_env ex_store ''AABBCCDDEEFF'' = Get_threw ''read timed out''"
    by (simp add: values_get_def unreadable_env_fields)
  have out: "?out = POST_write unreadable_env ex_store ?req [Device_absent_creating]"
    by (simp add: POST_def unreadable_env_fields p g)
  have u: "update_fault unreadable_env (key ?req) = None"
    by (simp add: unreadable_env_fields)
  have s200: "status (response ?out) = 200"
    unfolding out by (rule POST_write_written(1)[OF u])
  have new: "stored_record (store ?out) ''AABBCCDDEEFF''
      = Some (normalizeDeviceData ''2025-06-01T12:00:00.000Z'' ?v)"
    using POST_write_written(2)[OF u, of ex_store "[Device_absent_creating]"]
    by (simp add: out unreadable_env_fields)
  have old: "stored_record ex_store ''AABBCCDDEEFF''
      = Some (device ''alice'' alice_key ''AABBCCDDEEFF'' ''hello'')"
    by (simp add: stored_record_def ex_store_def stored_def)
  have differ: "normalizeDeviceData ''2025-06-01T12:00:00.000Z'' ?v
      \<noteq> device ''alice'' alice_key ''AABBCCDDEEFF'' ''hello''"
    by (simp add: normalizeDeviceData_def device_def)
  have "store ?out \<noteq> ex_store"
  proof
    assume "store ?out = ex_store"
    with new old differ show False by simp
  qed
  with s200 new old stores_value_ex_store(1) show ?thesis
    by simp
qed

text \<open>
  Claim C1, amended. For a create request that the schema accepts: if the read of its key
  does not fail and the key holds a value that is not empty, POST answers 409 and leaves the
  store as it was; POST answers with success (200) only if the key is absent, or holds an
  empty value, or its read has failed; and when the read fails (the handler takes that as
  absence) and the write succeeds, POST answers 200 and the key holds the new normalized
  record, whatever it held.
\<close>

theorem create_conflict:
  assumes "JSON_parse request = Inr body"
    and "CreateDeviceRequestSchema_parse (zod_datetime e) body = Inr req"
  shows "(get_fault e (key req) = None \<and> stores_value st (key req) \<longrightarrow>
            status (response (POST e st request)) = 409 \<and> store (POST e st request) = st)
    \<and> (status (response (POST e st request)) = 200 \<longrightarrow>
          \<not> stores_value st (key req) \<or> get_fault e (key req) \<noteq> None)
    \<and> (get_fault e (key req) \<noteq> None \<and> update_fault e (key req) = None \<longrightarrow>
          status (response (POST e st request)) = 200
          \<and> stored_record (store (POST e st request)) (key req)
              = Some (normalizeDeviceData (date_now e Normalize_now) (val req)))"
proof -
  have conflict: "status (response (POST e st request)) = 409 \<and> store (POST e st request) = st"
    if "get_fault e (key req) = None" "stores_value st (key req)"
  proof -
    from values_get_stores_value[OF that] obtain t where
      "values_get e st (key req) = Get_response t" "text_truthy t"
      by blast
    with assms show ?thesis
      by (simp add: POST_def answer_def error_response_def)
  qed
  have written: "status (response (POST e st request)) = 200
          \<and> stored_record (store (POST e st request)) (key req)
              = Some (normalizeDeviceData (date_now e Normalize_now) (val req))"
    if "get_fault e (key req) \<noteq> None" "update_fault e (key req) = None"
  proof -
    from values_get_fault[OF that(1), of st] obtain m where
      "values_get e st (key req) = Get_threw m"
      by blast
    with assms have "POST e st request = POST_write e st req [Device_absent_creating]"
      by (simp add: POST_def)
    with POST_write_written[OF that(2), of st "[Device_absent_creating]"] show ?thesis
      by simp
  qed
  have only: "\<not> stores_value st (key req) \<or> get_fault e (key req) \<noteq> None"
    if "status (response (POST e st request)) = 200"
  proof (rule ccontr)
    assume "\<not> (\<not> stores_value st (key req) \<or> get_fault e (key req) \<noteq> None)"
    then have "get_fault e (key req) = None" "stores_value st (key req)"
      by simp_all
    from conflict[OF this] that show False
      by simp
  qed
  from conflict written only show ?thesis
    by blast
qed

text \<open>
  Witness for the amended C1: with reads that succeed, a create on the key of the first
  device of the concrete store is a conflict and leaves the store, and a create on a key
  that the store does not have succeeds; with a read that fails, the create on the key of
  the first device succeeds.
\<close>

theorem create_conflict_witness:
  "get_fault ex_env ''AABBCCDDEEFF'' = None \<and> stores_value ex_store ''AABBCCDDEEFF''
   \<and> status (response (POST ex_env ex_store
        (Json_text (create_body ''AABBCCDDEEFF''
           (device ''bob'' bob_key ''AABBCCDDEEFF'' ''news''))))) = 409
   \<and> store (POST ex_env ex_store
        (Json_text (create_body ''AABBCCDDEEFF''
           (device ''bob'' bob_key ''AABBCCDDEEFF'' ''news'')))) = ex_store
   \<and> status (response (POST ex_env ex_store
        (Json_text (create_body ''AABBCCDDEE00''
           (device ''bob'' bob_key ''AABBCCDDEE00'' ''news''))))) = 200
   \<and> \<not> stores_value ex_store ''AABBCCDDEE00''
   \<and> get_fault unreadable_env ''AABBCCDDEEFF'' \<noteq> None
   \<and> update_fault unreadable_env ''AABBCCDDEEFF'' = None
   \<and> status (response (POST unreadable_env ex_store
        (Json_text (create_body ''AABBCCDDEEFF''
           (device ''bob'' bob_key ''AABBCCDDEEFF'' ''news''))))) = 200"
proof -
  have p: "CreateDeviceRequestSchema_parse (zod_datetime ex_env)
       (create_body k (device ''bob'' bob_key k ''news''))
     = Inr \<lparr> key = k, val = device ''bob'' bob_key k ''news'', metadata = None, ttl = None \<rparr>"
    if "deviceId_regex k" "k \<noteq> []" for k
    using that by (simp add: ex_env_def parse_create_body_device ownerKey_regex_bob)
  have pu: "CreateDeviceRequestSchema_parse (zod_datetime unreadable_env)
       (create_body ''AABBCCDDEEFF'' (device ''bob'' bob_key ''AABBCCDDEEFF'' ''news''))
     = Inr \<lparr> key = ''AABBCCDDEEFF'', val = device ''bob'' bob_key ''AABBCCDDEEFF'' ''news'',
             metadata = None, ttl = None \<rparr>"
    by (simp add: unreadable_env_fields parse_create_body_device ownerKey_regex_bob
        deviceId_regex_examples)
  have d: "deviceId_regex ''AABBCCDDEE00''"
    by (simp add: deviceId_regex_def upper_hex_def)
  have j: "JSON_parse (Json_text b) = Inr b" for b
    by simp
  have s: "status (response (POST ex_env ex_store
        (Json_text (create_body ''AABBCCDDEE00''
           (device ''bob'' bob_key ''AABBCCDDEE00'' ''news''))))) = 200"
    using p[OF d]
    by (simp add: POST_def POST_write_def Let_def values_get_def values_update_def answer_def
        status_success ex_env_def ex_store_def)
  have g: "get_fault ex_env k = None" for k
    by (simp add: ex_env_def)
  from create_conflict[OF j p, of "''AABBCCDDEEFF''" ex_store]
    create_conflict[OF j p, of "''AABBCCDDEE00''" ex_store]
    create_conflict[OF j pu, of ex_store]
  show ?thesis
    by (simp add: stores_value_ex_store g deviceId_regex_examples d s unreadable_env_fields)
qed






text \<open>
  Claim C3. When the listing of the keys succeeds, GET without parameters (list all) answers
  200 whatever the records are, and its devices are exactly the validated records of the
  keys that hold a valid record, in the order of the listing; its count is the number of
  those keys. Every malformed record (unreadable, empty, not JSON, invalid for the schema)
  is dropped. GET with the key of a record that is not valid answers with an error instead:
  status 400, 404 or 500, an \<^verbatim>\<open>error\<close> field and no device.
\<close>

theorem list_all_skips_malformed:
  assumes "list_fault e = None"
  shows "status (response (GET e st None None None)) = 200
    \<and> devices_of (response (GET e st None None None))
        = List.map_filter (record_of e st) (map fst st)
    \<and> body_field (response (GET e st None None None)) ''count''
        = Some (JNum (of_nat (length (filter (\<lambda>name. record_of e st name \<noteq> None) (map fst st)))))
    \<and> (\<forall>name. name \<noteq> [] \<and> record_of e st name = None \<longrightarrow>
          status (response (GET e st (Some name) None None)) \<in> {400, 404, 500}
          \<and> body_field (response (GET e st (Some name) None None)) ''error'' \<noteq> None
          \<and> body_field (response (GET e st (Some name) None None)) ''device'' = None)"
proof -
  have all: "GET e st None None None = GET_all e st"
    by (simp add: GET_def owner_pair_def param_truthy_def)
  have one: "GET e st (Some name) None None = GET_one e st name" if "name \<noteq> []" for name
    using that by (simp add: GET_def owner_pair_def param_truthy_def)
  show ?thesis
    using GET_all_response[OF assms, of st] GET_one_no_record[of e st]
    by (simp add: all one status_success devices_of_def field_all_devices length_map_filter)
qed

text \<open>
  Witness for C3: the concrete store holds two valid records and three malformed ones; the
  list has two devices, and GET on the key of the record that is not JSON is an error.
\<close>

theorem list_all_skips_malformed_witness:
  "list_fault ex_env = None
   \<and> length (devices_of (response (GET ex_env ex_store None None None))) = 2
   \<and> record_of ex_env ex_store ''000000000001'' = None
   \<and> status (response (GET ex_env ex_store (Some ''000000000001'') None None)) \<in> {400, 404, 500}"
proof -
  have l: "list_fault ex_env = None" by (simp add: ex_env_def)
  have k: "map fst ex_store = [''AABBCCDDEEFF'', ''000000000001'', ''000000000002'',
      ''000000000003'', ''000000000004'']"
    by (simp add: ex_store_def)
  from list_all_skips_malformed[OF l, of ex_store] show ?thesis
    by (simp add: l k record_of_ex_store)
qed

text \<open>
  Counterexample to C4 as stated: a full update whose value is the record that the store
  already holds under the key, so that the content does not differ, sends the notification.
\<close>

theorem notify_only_on_change_counterexample:
  "stored_record ex_store ''AABBCCDDEEFF''
     = Some (device ''alice'' alice_key ''AABBCCDDEEFF'' ''hello'')
   \<and> calls (PUT ex_env ex_store
        (Json_text (create_body ''AABBCCDDEEFF''
           (device ''alice'' alice_key ''AABBCCDDEEFF'' ''hello'')))) \<noteq> []"
proof -
  let ?req = "\<lparr> key = ''AABBCCDDEEFF'', val = device ''alice'' alice_key ''AABBCCDDEEFF'' ''hello'',
      metadata = None, ttl = None \<rparr>"
  have j: "JSON_parse (Json_text b) = Inr b" for b
    by simp
  have n: "UpdateDeviceContentRequestSchema_parse
      (create_body ''AABBCCDDEEFF'' (device ''alice'' alice_key ''AABBCCDDEEFF'' ''hello''))
     = Inl (ZodError [[''content'']])"
    by (simp add: not_content_request)
  have p: "UpdateDeviceRequestSchema_parse (zod_datetime ex_env)
      (create_body ''AABBCCDDEEFF'' (device ''alice'' alice_key ''AABBCCDDEEFF'' ''hello''))
     = Inr ?req"
    by (simp add: parse_update_device ownerKey_regex_alice deviceId_regex_examples)
  have c: "get_prop (normalizeDeviceData now (fst (PUT_full_merge ex_env ex_store ?req))) ''content''
     = Some (JObj [(''title'', JStr ''hello'')])" for now
    by (simp add: PUT_full_merge_def values_get_def ex_env_fields ex_store_def stored_def
        device_def normalizeDeviceData_def or_else_def)
  have "calls (PUT ex_env ex_store
        (Json_text (create_body ''AABBCCDDEEFF''
           (device ''alice'' alice_key ''AABBCCDDEEFF'' ''hello'')))) \<noteq> []"
    using dispatch_calls[OF c]
    by (simp add: PUT_full_request[OF j n p] PUT_write_written ex_env_fields)
  moreover have "stored_record ex_store ''AABBCCDDEEFF''
     = Some (device ''alice'' alice_key ''AABBCCDDEEFF'' ''hello'')"
    by (simp add: stored_record_def ex_store_def stored_def)
  ultimately show ?thesis by simp
qed

text \<open>
  Claim C4, amended. On a full update the notification is sent if and only if the write to
  the store has succeeded, whether the content differs from the stored content or not (the
  record written always has a content object, which is all the handler tests); when it is
  sent it is sent once, the record is in the store and the response is a success.
\<close>

theorem notify_iff_written:
  assumes "JSON_parse request = Inr body"
    and "UpdateDeviceContentRequestSchema_parse body = Inl err"
    and "UpdateDeviceRequestSchema_parse (zod_datetime e) body = Inr req"
  shows "(calls (PUT e st request) \<noteq> []) = (update_fault e (key req) = None)
    \<and> (calls (PUT e st request) \<noteq> [] \<longrightarrow>
          length (calls (PUT e st request)) = 1
          \<and> status (response (PUT e st request)) = 200
          \<and> stored_record (store (PUT e st request)) (key req) \<noteq> None)"
proof (cases "update_fault e (key req)")
  case None
  from assms(3) have p: "CreateDeviceRequestSchema_parse (zod_datetime e) body = Inr req"
    by (simp add: UpdateDeviceRequestSchema_parse_def)
  from content_of_normalized[OF p, of "date_now e Normalize_now" e st] obtain c where
    c: "get_prop (normalizeDeviceData (date_now e Normalize_now) (fst (PUT_full_merge e st req)))
          ''content'' = Some (JObj c)"
    by blast
  show ?thesis
    using None dispatch_calls[OF c]
    by (simp add: PUT_full_request[OF assms] PUT_write_written status_success
        stored_record_update)
next
  case (Some m)
  then show ?thesis
    by (simp add: PUT_full_request[OF assms] PUT_write_failed failed_def)
qed

text \<open>
  Witness for the amended C4: a full update of the first device of the concrete store, whose
  write succeeds, sends one notification.
\<close>

theorem notify_iff_written_witness:
  "update_fault ex_env ''AABBCCDDEEFF'' = None
   \<and> length (calls (PUT ex_env ex_store
        (Json_text (create_body ''AABBCCDDEEFF''
           (device ''alice'' alice_key ''AABBCCDDEEFF'' ''news''))))) = 1
   \<and> status (response (PUT ex_env ex_store
        (Json_text (create_body ''AABBCCDDEEFF''
           (device ''alice'' alice_key ''AABBCCDDEEFF'' ''news''))))) = 200"
proof -
  let ?req = "\<lparr> key = ''AABBCCDDEEFF'', val = device ''alice'' alice_key ''AABBCCDDEEFF'' ''news'',
      metadata = None, ttl = None \<rparr>"
  have j: "JSON_parse (Json_text b) = Inr b" for b
    by simp
  have n: "UpdateDeviceContentRequestSchema_parse
      (create_body ''AABBCCDDEEFF'' (device ''alice'' alice_key ''AABBCCDDEEFF'' ''news''))
     = Inl (ZodError [[''content'']])"
    by (simp add: not_content_request)
  have p: "UpdateDeviceRequestSchema_parse (zod_datetime ex_env)
      (create_body ''AABBCCDDEEFF'' (device ''alice'' alice_key ''AABBCCDDEEFF'' ''news''))
     = Inr ?req"
    by (simp add: parse_update_device ownerKey_regex_alice deviceId_regex_examples)
  have u: "update_fault ex_env (key ?req) = None"
    by (simp add: ex_env_fields)
  from notify_iff_written[OF j n p, of ex_store] u show ?thesis
    by (simp add: ex_env_fields)
qed

text \<open>
  Claim C5. For an update that reaches the write (a content update that merges, or a full
  update that the schema accepts) and whose write succeeds, the response of PUT is the
  success envelope of type \<^verbatim>\<open>device_updated\<close> whatever \<^verbatim>\<open>fetch\<close> does with the notification (it
  may throw or answer with any status): the response and the store are those of the same
  request under any other behaviour of \<^verbatim>\<open>fetch\<close>.
\<close>

theorem notification_failure_not_propagated:
  assumes "JSON_parse request = Inr body"
    and "PUT_content e st body = Content_merged k mergedData
         \<or> (PUT_content e st body = Content_threw
            \<and> UpdateDeviceRequestSchema_parse (zod_datetime e) body = Inr req \<and> key req = k)"
    and "update_fault e k = None"
  shows "status (response (PUT (e\<lparr>fetch := f\<rparr>) st request)) = 200
    \<and> body_field (response (PUT (e\<lparr>fetch := f\<rparr>) st request)) ''success'' = Some (JBool True)
    \<and> body_field (response (PUT (e\<lparr>fetch := f\<rparr>) st request)) ''type''
        = Some (JStr ''device_updated'')
    \<and> response (PUT (e\<lparr>fetch := f\<rparr>) st request) = response (PUT e st request)
    \<and> store (PUT (e\<lparr>fetch := f\<rparr>) st request) = store (PUT e st request)"
proof -
  have "status (response (PUT e st request)) = 200
    \<and> body_field (response (PUT e st request)) ''success'' = Some (JBool True)
    \<and> body_field (response (PUT e st request)) ''type'' = Some (JStr ''device_updated'')"
    using assms
    by (auto simp: PUT_def PUT_full_def PUT_write_written status_success field_updated
        split: prod.splits)
  then show ?thesis
    by (simp add: PUT_fetch)
qed

text \<open>
  Witness for C5: a content update of the first device of the concrete store succeeds when
  \<^verbatim>\<open>fetch\<close> throws and when the notification API answers 503.
\<close>

theorem notification_failure_not_propagated_witness:
  "update_fault ex_env ''AABBCCDDEEFF'' = None
   \<and> status (response (PUT (ex_env\<lparr>fetch := (\<lambda>c. Fetch_threw ''network down'')\<rparr>) ex_store
        (Json_text (content_body ''AABBCCDDEEFF'' (JObj [(''title'', JStr ''news'')]))))) = 200
   \<and> status (response (PUT (ex_env\<lparr>fetch := (\<lambda>c. Fetch_response 503)\<rparr>) ex_store
        (Json_text (content_body ''AABBCCDDEEFF'' (JObj [(''title'', JStr ''news'')]))))) = 200"
proof -
  let ?body = "content_body ''AABBCCDDEEFF'' (JObj [(''title'', JStr ''news'')])"
  let ?merged = "JObj (AList.update ''updatedAt'' (JStr (date_now ex_env Content_updatedAt))
                   (AList.update ''content'' (JObj [(''title'', JStr ''news'')])
                      (spread (device ''alice'' alice_key ''AABBCCDDEEFF'' ''hello''))))"
  have j: "JSON_parse (Json_text ?body) = Inr ?body"
    by simp
  have c: "PUT_content ex_env ex_store ?body = Content_merged ''AABBCCDDEEFF'' ?merged"
    by (simp add: PUT_content_def parse_content_body values_get_def ex_env_fields ex_store_def
        stored_def)
  have u: "update_fault ex_env ''AABBCCDDEEFF'' = None"
    by (simp add: ex_env_fields)
  from notification_failure_not_propagated[OF j disjI1[OF c] u,
      of "\<lambda>c. Fetch_threw ''network down''"]
    notification_failure_not_propagated[OF j disjI1[OF c] u, of "\<lambda>c. Fetch_response 503"] u
  show ?thesis
    by blast
qed

text \<open>
  Claim C6. For an owner and an ownerKey that are not empty, the devices of the list by
  owner are exactly the devices of the list of all devices whose \<^verbatim>\<open>owner\<close> and \<^verbatim>\<open>ownerKey\<close> both
  equal the pair given, in the same order; a device that matches on one of the two only is
  not among them.
\<close>

theorem list_by_owner_is_filtered_list_all:
  assumes "owner \<noteq> []" and "ownerKey \<noteq> []"
  shows "devices_of (response (GET e st k (Some owner) (Some ownerKey)))
           = filter (owned_by owner ownerKey) (devices_of (response (GET e st None None None)))
    \<and> (\<forall>d \<in> set (devices_of (response (GET e st k (Some owner) (Some ownerKey)))).
          get_prop d ''owner'' = Some (JStr owner) \<and> get_prop d ''ownerKey'' = Some (JStr ownerKey))"
proof -
  have by_owner: "GET e st k (Some owner) (Some ownerKey) = GET_by_owner e st owner ownerKey"
    using assms by (simp add: GET_def owner_pair_def)
  have all: "GET e st None None None = GET_all e st"
    by (simp add: GET_def owner_pair_def param_truthy_def)
  have eq: "devices_of (response (GET_by_owner e st owner ownerKey))
           = filter (owned_by owner ownerKey) (devices_of (response (GET_all e st)))"
  proof (cases "list_fault e")
    case None
    then show ?thesis
      by (simp add: GET_all_response GET_by_owner_response devices_of_def field_all_devices
          field_devices_by_owner)
  next
    case (Some m)
    then show ?thesis
      using field_handleError[of "Error m" Get_device_data]
      by (simp add: GET_list_failed devices_of_def)
  qed
  show ?thesis
    unfolding by_owner all eq by (simp add: owned_by_def)
qed

text \<open>
  Witness for C6: the store has two devices of owner alice with different ownerKeys; the
  list by owner with the first ownerKey has the first device only.
\<close>

theorem list_by_owner_is_filtered_list_all_witness:
  "''alice'' \<noteq> [] \<and> alice_key \<noteq> []
   \<and> devices_of (response (GET ex_env ex_store None None None))
      = [device ''alice'' alice_key ''AABBCCDDEEFF'' ''hello'',
         device ''alice'' bob_key ''000000000002'' ''hi'']
   \<and> devices_of (response (GET ex_env ex_store None (Some ''alice'') (Some alice_key)))
      = [device ''alice'' alice_key ''AABBCCDDEEFF'' ''hello'']"
proof -
  have l: "list_fault ex_env = None" by (simp add: ex_env_def)
  have k: "map fst ex_store = [''AABBCCDDEEFF'', ''000000000001'', ''000000000002'',
      ''000000000003'', ''000000000004'']"
    by (simp add: ex_store_def)
  have a: "alice_key \<noteq> []" by (simp add: alice_key_def)
  have ab: "bob_key \<noteq> alice_key" by (simp add: alice_key_def bob_key_def)
  have all: "devices_of (response (GET ex_env ex_store None None None))
      = [device ''alice'' alice_key ''AABBCCDDEEFF'' ''hello'',
         device ''alice'' bob_key ''000000000002'' ''hi'']"
    using GET_all_response[OF l, of ex_store]
    by (simp add: GET_def owner_pair_def param_truthy_def devices_of_def field_all_devices k
        record_of_ex_store)
  from list_by_owner_is_filtered_list_all[of "''alice''" alice_key ex_env ex_store None]
  show ?thesis
    by (simp add: a ab all owned_by_def device_def)
qed

text \<open>
  A content update that the schema accepts, when the read of its key returns a falsy result
  or the empty text: PUT answers 404, writes nothing and sends no notification.
\<close>

lemma content_update_not_found:
  assumes "JSON_parse request = Inr body"
    and "UpdateDeviceContentRequestSchema_parse body = Inr contentRequest"
    and "values_get e st (content_key contentRequest) = Get_null
         \<or> holds_empty e st (content_key contentRequest)"
  shows "status (response (PUT e st request)) = 404
    \<and> body_field (response (PUT e st request)) ''error'' = Some (JStr ''device does not exist'')
    \<and> store (PUT e st request) = st
    \<and> calls (PUT e st request) = []"
proof -
  from assms(2,3)
  have "PUT_content e st body = Content_returned (error_response 404 ''device does not exist'')"
    by (auto simp: PUT_content_def holds_empty_def)
  with assms(1) show ?thesis
    by (simp add: PUT_def answer_def status_error_response field_error_response)
qed

text \<open>
  Claim C7 (a content update on a key that is absent answers 404 and writes nothing), at an
  input where the handler does not do it. The store is empty and the client reports the
  missing key by an exception. The key is absent; GET and DELETE on it answer 404. A content
  update on it is caught by the \<^verbatim>\<open>catch\<close> of the first \<^verbatim>\<open>try\<close> of PUT and parsed again as a full
  update: the answer is 400, not 404; and when the body has a valid \<^verbatim>\<open>value\<close> beside its
  \<^verbatim>\<open>content\<close>, the full update is carried out and the record is written.
\<close>

theorem content_update_on_missing_key:
  "absent missing_env [] ''AABBCCDDEE00''
   \<and> status (response (GET missing_env [] (Some ''AABBCCDDEE00'') None None)) = 404
   \<and> status (response (DELETE missing_env [] (Some ''AABBCCDDEE00'') None None None)) = 404
   \<and> UpdateDeviceContentRequestSchema_parse
        (content_body ''AABBCCDDEE00'' (JObj [(''title'', JStr ''news'')]))
      = Inr \<lparr> content_key = ''AABBCCDDEE00'', content = JObj [(''title'', JStr ''news'')] \<rparr>
   \<and> status (response (PUT missing_env []
        (Json_text (content_body ''AABBCCDDEE00'' (JObj [(''title'', JStr ''news'')]))))) = 400
   \<and> UpdateDeviceContentRequestSchema_parse
        (both_body ''AABBCCDDEE00'' (JObj [(''title'', JStr ''news'')])
           (device ''bob'' bob_key ''AABBCCDDEE00'' ''news''))
      = Inr \<lparr> content_key = ''AABBCCDDEE00'', content = JObj [(''title'', JStr ''news'')] \<rparr>
   \<and> status (response (PUT missing_env []
        (Json_text (both_body ''AABBCCDDEE00'' (JObj [(''title'', JStr ''news'')])
           (device ''bob'' bob_key ''AABBCCDDEE00'' ''news''))))) = 200
   \<and> device_under (store (PUT missing_env []
        (Json_text (both_body ''AABBCCDDEE00'' (JObj [(''title'', JStr ''news'')])
           (device ''bob'' bob_key ''AABBCCDDEE00'' ''news'')))))
        ''AABBCCDDEE00'' = Some ''AABBCCDDEE00''"
proof -
  let ?c = "JObj [(''title'', JStr ''news'')]"
  let ?v = "device ''bob'' bob_key ''AABBCCDDEE00'' ''news''"
  let ?req = "\<lparr> key = ''AABBCCDDEE00'', val = ?v, metadata = None, ttl = None \<rparr>"
  have g: "values_get missing_env [] name = Get_threw ''404 key not found''" for name
    by (simp add: values_get_def missing_env_def)
  have f: "update_fault missing_env name = None" "zod_datetime missing_env = iso_datetime" for name
    by (simp_all add: missing_env_def ex_env_def)
  have a: "absent missing_env [] ''AABBCCDDEE00''"
    by (simp add: absent_def g)
  have get: "status (response (GET missing_env [] (Some ''AABBCCDDEE00'') None None)) = 404"
    by (simp add: GET_def owner_pair_def param_truthy_def GET_one_def g GET_caught_def
        answer_def status_error_response)
  have del: "status (response (DELETE missing_env [] (Some ''AABBCCDDEE00'') None None None)) = 404"
    by (simp add: DELETE_def param_truthy_def DELETE_one_def g answer_def status_error_response)
  have pc: "UpdateDeviceContentRequestSchema_parse (content_body ''AABBCCDDEE00'' ?c)
      = Inr \<lparr> content_key = ''AABBCCDDEE00'', content = ?c \<rparr>"
    by (simp add: parse_content_body)
  have nf: "UpdateDeviceRequestSchema_parse iso_datetime (content_body ''AABBCCDDEE00'' ?c)
      = Inl (ZodError [[''value'']])"
    by (simp add: UpdateDeviceRequestSchema_parse_def CreateDeviceRequestSchema_parse_def
        CreateDeviceRequestSchema_issues_def content_body_def z_string_def z_min_def
        z_optional_def DeviceSchema_issues_def)
  have put: "status (response (PUT missing_env [] (Json_text (content_body ''AABBCCDDEE00'' ?c))))
      = 400"
    by (simp add: PUT_def PUT_content_def pc g PUT_full_def f nf failed_def handleError_def)
  have d: "deviceId_regex ''AABBCCDDEE00''"
    by (simp add: deviceId_regex_def upper_hex_def)
  have pb: "UpdateDeviceContentRequestSchema_parse (both_body ''AABBCCDDEE00'' ?c ?v)
      = Inr \<lparr> content_key = ''AABBCCDDEE00'', content = ?c \<rparr>"
    by (simp add: UpdateDeviceContentRequestSchema_parse_def
        UpdateDeviceContentRequestSchema_issues_def both_body_def z_string_def z_min_def
        z_max_def z_optional_def DeviceContentSchema_issues_def str_of_def present_def
        DeviceContentSchema_output_def strip_def content_shape_def)
  have pf: "UpdateDeviceRequestSchema_parse iso_datetime (both_body ''AABBCCDDEE00'' ?c ?v)
      = Inr ?req"
    using device_issues[of "''bob''" bob_key "''AABBCCDDEE00''" "''news''" "[''value'']"]
    by (simp add: UpdateDeviceRequestSchema_parse_def CreateDeviceRequestSchema_parse_def
        CreateDeviceRequestSchema_issues_def both_body_def z_string_def z_min_def
        z_optional_def str_of_def present_def num_of_def device_output ownerKey_regex_bob d)
  have m: "PUT_full_merge missing_env [] ?req = (?v, [Existing_unreadable])"
    by (simp add: PUT_full_merge_def g)
  have out: "PUT missing_env [] (Json_text (both_body ''AABBCCDDEE00'' ?c ?v))
      = PUT_write missing_env [] ''AABBCCDDEE00'' ?v None None [Existing_unreadable]"
    by (simp add: PUT_def PUT_content_def pb g PUT_full_def f pf m)
  have nd: "get_prop (normalizeDeviceData now ?v) ''deviceId'' = Some (JStr ''AABBCCDDEE00'')"
    for now
    by (simp add: device_def get_prop_normalizeDeviceData)
  have both: "status (response (PUT missing_env []
        (Json_text (both_body ''AABBCCDDEE00'' ?c ?v)))) = 200"
    "device_under (store (PUT missing_env [] (Json_text (both_body ''AABBCCDDEE00'' ?c ?v))))
        ''AABBCCDDEE00'' = Some ''AABBCCDDEE00''"
    by (simp_all add: out PUT_write_written f status_success device_under_def
        stored_record_def nd)
  from a get del pc put pb both show ?thesis
    by simp
qed

text \<open>
  Claim C8. For an owner and an ownerKey that are not empty, when the listing of the keys
  succeeds (the keys of a store are distinct): the bulk delete answers 200 whatever delete
  fails; the keys it deletes are exactly the keys whose record validates and matches the
  owner pair and whose delete does not fail; \<^verbatim>\<open>deletedKeys\<close> lists them in the order of the
  listing and the message gives their number; every other key, a key whose delete failed
  among them, keeps its value in the store.
\<close>

theorem delete_by_owner_deletes_matching:
  assumes "owner \<noteq> []" and "ownerKey \<noteq> []"
    and "list_fault e = None" and "distinct (map fst st)"
  shows "status (response (DELETE e st k (Some owner) (Some ownerKey) (Some ''true''))) = 200
    \<and> body_field (response (DELETE e st k (Some owner) (Some ownerKey) (Some ''true'')))
        ''deletedKeys''
        = Some (JArr (map JStr (filter (deleted_by e st owner ownerKey) (map fst st))))
    \<and> body_field (response (DELETE e st k (Some owner) (Some ownerKey) (Some ''true'')))
        ''message''
        = Some (JStr (''deleted ''
                      @ decimal (length (filter (deleted_by e st owner ownerKey) (map fst st)))
                      @ '' devices of user '' @ owner))
    \<and> store (DELETE e st k (Some owner) (Some ownerKey) (Some ''true''))
        = filter (\<lambda>p. \<not> deleted_by e st owner ownerKey (fst p)) st
    \<and> (\<forall>name. map_of (store (DELETE e st k (Some owner) (Some ownerKey) (Some ''true''))) name
          = (if deleted_by e st owner ownerKey name then None else map_of st name))"
proof -
  have b: "DELETE e st k (Some owner) (Some ownerKey) (Some ''true'')
      = DELETE_by_owner e st owner ownerKey"
    using assms(1,2) by (simp add: DELETE_def owner_pair_def)
  show ?thesis
    unfolding b
    by (simp add: DELETE_by_owner_outcome[OF assms(3,4)] status_success field_bulk_delete
        map_of_filter_fst[of "\<lambda>n. \<not> deleted_by e st owner ownerKey n"])
qed

text \<open>
  Witness for C8: of the three devices that match, the two whose delete succeeds are deleted
  and listed; the third, whose delete fails, and the two that do not match stay in the store.
\<close>

theorem delete_by_owner_deletes_matching_witness:
  "distinct (map fst bulk_store)
   \<and> body_field (response (DELETE flaky_env bulk_store None (Some ''alice'') (Some alice_key)
        (Some ''true''))) ''deletedKeys''
      = Some (JArr [JStr ''0000000000A1'', JStr ''0000000000A2''])
   \<and> map fst (store (DELETE flaky_env bulk_store None (Some ''alice'') (Some alice_key)
        (Some ''true'')))
      = [''0000000000B1'', ''0000000000B2'', ''0000000000A3'']
   \<and> map_of (store (DELETE flaky_env bulk_store None (Some ''alice'') (Some alice_key)
        (Some ''true''))) ''0000000000B2''
      = map_of bulk_store ''0000000000B2''"
proof -
  have a: "alice_key \<noteq> []" by (simp add: alice_key_def)
  have k: "map fst bulk_store = [''0000000000A1'', ''0000000000B1'', ''0000000000A2'',
      ''0000000000B2'', ''0000000000A3'']"
    by (simp add: bulk_store_def)
  have d: "distinct (map fst bulk_store)"
    by (simp add: k)
  have f: "filter (\<lambda>p. \<not> deleted_by flaky_env bulk_store ''alice'' alice_key (fst p)) bulk_store
     = [(''0000000000B1'', stored (Json_text (device ''alice'' bob_key ''0000000000B1'' ''two''))),
        (''0000000000B2'', stored (Json_text (device ''bob'' bob_key ''0000000000B2'' ''four''))),
        (''0000000000A3'', stored (Json_text (device ''alice'' alice_key ''0000000000A3'' ''five'')))]"
    unfolding bulk_store_def[symmetric]
    by (subst (2) bulk_store_def) (simp add: deleted_by_bulk_store)
  let ?out = "DELETE flaky_env bulk_store None (Some ''alice'') (Some alice_key) (Some ''true'')"
  from delete_by_owner_deletes_matching[of "''alice''" alice_key flaky_env bulk_store None]
  have r: "body_field (response ?out) ''deletedKeys''
        = Some (JArr (map JStr (filter (deleted_by flaky_env bulk_store ''alice'' alice_key)
                                  (map fst bulk_store))))"
    and s: "store ?out
        = filter (\<lambda>p. \<not> deleted_by flaky_env bulk_store ''alice'' alice_key (fst p)) bulk_store"
    and m: "map_of (store ?out) ''0000000000B2''
        = (if deleted_by flaky_env bulk_store ''alice'' alice_key ''0000000000B2''
           then None else map_of bulk_store ''0000000000B2'')"
    using a d flaky_env_fields(2) by blast+
  from r have "body_field (response ?out) ''deletedKeys''
      = Some (JArr [JStr ''0000000000A1'', JStr ''0000000000A2''])"
    by (simp add: k deleted_by_bulk_store)
  moreover from s have "map fst (store ?out) = [''0000000000B1'', ''0000000000B2'', ''0000000000A3'']"
    by (simp add: f)
  moreover from m have "map_of (store ?out) ''0000000000B2'' = map_of bulk_store ''0000000000B2''"
    by (simp add: deleted_by_bulk_store)
  ultimately show ?thesis
    using d by simp
qed

text \<open>
  Counterexample to C9 as stated: a create with the key \<^verbatim>\<open>kitchen\<close> and a value whose
  \<^verbatim>\<open>deviceId\<close> is \<^verbatim>\<open>AABBCCDDEEFF\<close> succeeds and stores the record under \<^verbatim>\<open>kitchen\<close>.
\<close>

theorem key_is_deviceId_counterexample:
  "status (response (POST ex_env ex_store
        (Json_text (create_body ''kitchen''
           (device ''alice'' alice_key ''AABBCCDDEEFF'' ''hello''))))) = 200
   \<and> device_under (store (POST ex_env ex_store
        (Json_text (create_body ''kitchen''
           (device ''alice'' alice_key ''AABBCCDDEEFF'' ''hello'')))))
        ''kitchen'' = Some ''AABBCCDDEEFF''
   \<and> ''kitchen'' \<noteq> ''AABBCCDDEEFF''"
proof -
  let ?v = "device ''alice'' alice_key ''AABBCCDDEEFF'' ''hello''"
  let ?req = "\<lparr> key = ''kitchen'', val = ?v, metadata = None, ttl = None \<rparr>"
  let ?request = "Json_text (create_body ''kitchen'' ?v)"
  have j: "JSON_parse ?request = Inr (create_body ''kitchen'' ?v)"
    by simp
  have p: "CreateDeviceRequestSchema_parse (zod_datetime ex_env) (create_body ''kitchen'' ?v)
     = Inr ?req"
    by (simp add: ex_env_fields parse_create_body_device ownerKey_regex_alice
        deviceId_regex_examples)
  have sp: "status (response (POST ex_env ex_store ?request)) = 200"
    using p
    by (simp add: POST_def POST_write_def Let_def values_get_def values_update_def answer_def
        status_success ex_env_fields ex_store_def)
  have nd: "get_prop (normalizeDeviceData now ?v) ''deviceId'' = Some (JStr ''AABBCCDDEEFF'')"
    for now
    by (simp add: device_def get_prop_normalizeDeviceData)
  have "device_under (store (POST ex_env ex_store ?request)) ''kitchen'' = Some ''AABBCCDDEEFF''"
    using sp by (simp add: POST_store[OF j p] device_under_update nd)
  with sp show ?thesis by simp
qed

text \<open>
  Claim C9, amended. A create or a full update that the schema accepts stores its record
  under the \<^verbatim>\<open>key\<close> of the request, a string that is not empty, and touches no other key; the
  record stored carries the \<^verbatim>\<open>deviceId\<close> of the request's value, which is 12 upper-case
  hexadecimal characters. The handlers do not compare \<^verbatim>\<open>key\<close> with \<^verbatim>\<open>deviceId\<close>: the key equals
  the \<^verbatim>\<open>deviceId\<close> of the record when the caller gives the same string for both.
\<close>

theorem persisted_under_request_key:
  assumes "JSON_parse request = Inr body"
    and "CreateDeviceRequestSchema_parse (zod_datetime e) body = Inr req"
    and "UpdateDeviceContentRequestSchema_parse body = Inl err"
  shows "\<exists>d. get_prop (val req) ''deviceId'' = Some (JStr d) \<and> deviceId_regex d \<and> key req \<noteq> []
    \<and> (status (response (POST e st request)) = 200 \<longrightarrow>
          device_under (store (POST e st request)) (key req) = Some d)
    \<and> (status (response (PUT e st request)) = 200 \<longrightarrow>
          device_under (store (PUT e st request)) (key req) = Some d)
    \<and> (\<forall>name. name \<noteq> key req \<longrightarrow>
          map_of (store (POST e st request)) name = map_of st name
          \<and> map_of (store (PUT e st request)) name = map_of st name)"
proof -
  from val_request[OF assms(2)] obtain al d where
    al: "val req = JObj al" "map_of al ''deviceId'' = Some (JStr d)" "deviceId_regex d"
    by blast
  from CreateDeviceRequestSchema_parse_Inr[OF assms(2)] have k: "key req \<noteq> []"
    by blast
  from PUT_full_merge_obj[OF al(1), of e st] obtain ml where
    ml: "fst (PUT_full_merge e st req) = JObj ml"
    and same: "\<forall>name. name \<noteq> ''createdAt'' \<and> name \<noteq> ''updatedAt'' \<longrightarrow> map_of ml name = map_of al name"
    by blast
  from same have mld: "map_of ml ''deviceId'' = map_of al ''deviceId''"
    by simp
  have u: "UpdateDeviceRequestSchema_parse (zod_datetime e) body = Inr req"
    using assms(2) by (simp add: UpdateDeviceRequestSchema_parse_def)
  have post: "device_under (store (POST e st request)) (key req) = Some d"
    if "status (response (POST e st request)) = 200"
    using that al
    by (simp add: POST_store[OF assms(1,2)] device_under_update get_prop_normalizeDeviceData)
  have put: "device_under (store (PUT e st request)) (key req) = Some d"
    if "status (response (PUT e st request)) = 200"
    using that al mld
    by (simp add: PUT_full_store[OF assms(1,3) u] ml device_under_update
        get_prop_normalizeDeviceData)
  have other: "map_of (store (POST e st request)) name = map_of st name
          \<and> map_of (store (PUT e st request)) name = map_of st name"
    if "name \<noteq> key req" for name
    using that
    by (simp add: POST_store[OF assms(1,2)] PUT_full_store[OF assms(1,3) u] map_of_update_other)
  from al k post put other show ?thesis
    by auto
qed

text \<open>
  Witness for the amended C9: a create and a full update on a new key of the concrete store.
\<close>

theorem persisted_under_request_key_witness:
  "status (response (POST ex_env ex_store
        (Json_text (create_body ''AABBCCDDEE00''
           (device ''bob'' bob_key ''AABBCCDDEE00'' ''news''))))) = 200
   \<and> device_under (store (POST ex_env ex_store
        (Json_text (create_body ''AABBCCDDEE00''
           (device ''bob'' bob_key ''AABBCCDDEE00'' ''news'')))))
        ''AABBCCDDEE00'' = Some ''AABBCCDDEE00''
   \<and> status (response (PUT ex_env ex_store
        (Json_text (create_body ''AABBCCDDEE00''
           (device ''bob'' bob_key ''AABBCCDDEE00'' ''news''))))) = 200
   \<and> device_under (store (PUT ex_env ex_store
        (Json_text (create_body ''AABBCCDDEE00''
           (device ''bob'' bob_key ''AABBCCDDEE00'' ''news'')))))
        ''AABBCCDDEE00'' = Some ''AABBCCDDEE00''
   \<and> map_of (store (POST ex_env ex_store
        (Json_text (create_body ''AABBCCDDEE00''
           (device ''bob'' bob_key ''AABBCCDDEE00'' ''news''))))) ''AABBCCDDEEFF''
      = map_of ex_store ''AABBCCDDEEFF''"
proof -
  let ?v = "device ''bob'' bob_key ''AABBCCDDEE00'' ''news''"
  let ?req = "\<lparr> key = ''AABBCCDDEE00'', val = ?v, metadata = None, ttl = None \<rparr>"
  let ?request = "Json_text (create_body ''AABBCCDDEE00'' ?v)"
  have j: "JSON_parse ?request = Inr (create_body ''AABBCCDDEE00'' ?v)"
    by simp
  have d: "deviceId_regex ''AABBCCDDEE00''"
    by (simp add: deviceId_regex_def upper_hex_def)
  have p: "CreateDeviceRequestSchema_parse (zod_datetime ex_env) (create_body ''AABBCCDDEE00'' ?v)
     = Inr ?req"
    by (simp add: ex_env_fields parse_create_body_device ownerKey_regex_bob d)
  have u: "UpdateDeviceRequestSchema_parse (zod_datetime ex_env) (create_body ''AABBCCDDEE00'' ?v)
     = Inr ?req"
    using p by (simp add: UpdateDeviceRequestSchema_parse_def)
  have n: "UpdateDeviceContentRequestSchema_parse (create_body ''AABBCCDDEE00'' ?v)
     = Inl (ZodError [[''content'']])"
    by (simp add: not_content_request)
  have sp: "status (response (POST ex_env ex_store ?request)) = 200"
    using p
    by (simp add: POST_def POST_write_def Let_def values_get_def values_update_def answer_def
        status_success ex_env_fields ex_store_def)
  have su: "status (response (PUT ex_env ex_store ?request)) = 200"
    by (simp add: PUT_full_request[OF j n u] PUT_write_written ex_env_fields status_success)
  have dv: "get_prop ?v ''deviceId'' = Some (JStr ''AABBCCDDEE00'')"
    by (simp add: device_def)
  from persisted_under_request_key[OF j p n, of ex_store] sp su dv
  show ?thesis
    by auto
qed

text \<open>
  Claim C10. A GET that gives only one of \<^verbatim>\<open>owner\<close> and \<^verbatim>\<open>ownerKey\<close>, and no key, is the
  list of all devices: the same outcome as GET without parameters, a success response of
  type \<^verbatim>\<open>all_devices\<close> with every valid device of the store, not filtered (when the listing
  of the keys succeeds).
\<close>

theorem partial_owner_lists_all:
  assumes "owner = None \<or> ownerKey = None" and "list_fault e = None"
  shows "GET e st None owner ownerKey = GET e st None None None
    \<and> status (response (GET e st None owner ownerKey)) = 200
    \<and> body_field (response (GET e st None owner ownerKey)) ''type'' = Some (JStr ''all_devices'')
    \<and> devices_of (response (GET e st None owner ownerKey))
        = List.map_filter (record_of e st) (map fst st)"
proof -
  have "owner_pair owner ownerKey = None"
    using assms(1) by (auto simp: owner_pair_def split: option.splits)
  then have "GET e st None owner ownerKey = GET_all e st"
    by (simp add: GET_def param_truthy_def)
  moreover have "GET e st None None None = GET_all e st"
    by (simp add: GET_def owner_pair_def param_truthy_def)
  ultimately show ?thesis
    using GET_all_response[OF assms(2), of st]
    by (simp add: status_success devices_of_def field_all_devices)
qed

text \<open>
  Witness for C10: with only \<^verbatim>\<open>owner=bob\<close>, the two devices of alice are returned.
\<close>

theorem partial_owner_lists_all_witness:
  "list_fault ex_env = None
   \<and> GET ex_env ex_store None (Some ''bob'') None = GET ex_env ex_store None None None
   \<and> devices_of (response (GET ex_env ex_store None (Some ''bob'') None))
      = [device ''alice'' alice_key ''AABBCCDDEEFF'' ''hello'',
         device ''alice'' bob_key ''000000000002'' ''hi'']"
proof -
  have l: "list_fault ex_env = None" by (simp add: ex_env_def)
  have k: "map fst ex_store = [''AABBCCDDEEFF'', ''000000000001'', ''000000000002'',
      ''000000000003'', ''000000000004'']"
    by (simp add: ex_store_def)
  from partial_owner_lists_all[of "Some ''bob''" None ex_env ex_store] show ?thesis
    by (auto simp add: l k record_of_ex_store)
qed

end
